theory Spec2Isabelle
  imports Main
begin

section \<open>Common conventions\<close>

text \<open>
  The two managers are JavaScript classes whose methods mutate the fields of \<open>this\<close>.
  A method is a function from the object before the call to a completion: either it
  returns a value together with the object after the call, or it throws, and then the
  completion carries the object as the mutations made before the throw left it.
  Numbers are the integers the code stores in them (identifiers, timestamps in
  milliseconds); all of them stay far below \<open>2 ^ 53\<close>, where JavaScript numbers are exact.
\<close>

datatype js_error =
    TypeError             \<comment> \<open>reading a property of \<open>undefined\<close> or \<open>null\<close>\<close>
  | Undefined             \<comment> \<open>the reason of \<open>Promise.reject()\<close>\<close>
  | Thrown string         \<comment> \<open>any other exception or rejection value\<close>

datatype ('v, 's) completion =
    Returns 'v 's
  | Throws js_error 's

text \<open>
  Promises are named, not run: a method that makes a promise returns its name, and what
  the promise settles to is a function of how the promises made elsewhere settle.
  \<open>Pending\<close> is a promise that never settles.
\<close>

datatype 'a outcome = Pending | Fulfilled 'a | Rejected js_error

text \<open>
  The ways the code combines promises. A handler returns a value or throws (\<open>Inl\<close>);
  no handler in the code returns a promise. \<open>then\<close> with one handler lets a rejection
  through, \<open>catch\<close> lets a value through.
\<close>

definition settle_with :: "js_error + 'b \<Rightarrow> 'b outcome" where
  "settle_with r = (case r of Inl e \<Rightarrow> Rejected e | Inr v \<Rightarrow> Fulfilled v)"

definition promise_then ::
  "'a outcome \<Rightarrow> ('a \<Rightarrow> js_error + 'b) \<Rightarrow> (js_error \<Rightarrow> js_error + 'b) \<Rightarrow> 'b outcome" where
  "promise_then p onFulfilled onRejected =
    (case p of
       Pending \<Rightarrow> Pending
     | Fulfilled v \<Rightarrow> settle_with (onFulfilled v)
     | Rejected e \<Rightarrow> settle_with (onRejected e))"

definition promise_then1 :: "'a outcome \<Rightarrow> ('a \<Rightarrow> js_error + 'b) \<Rightarrow> 'b outcome" where
  "promise_then1 p onFulfilled = promise_then p onFulfilled Inl"

definition promise_catch :: "'a outcome \<Rightarrow> (js_error \<Rightarrow> js_error + 'a) \<Rightarrow> 'a outcome" where
  "promise_catch p onRejected = promise_then p Inr onRejected"

text \<open>
  \<open>Promise.all\<close> is rejected as soon as one input is, fulfilled with the list of values
  when all inputs are, and pending otherwise. Its reason is that of the input rejected
  first; the order of the list stands for the order in time.
\<close>

fun first_rejection :: "'a outcome list \<Rightarrow> js_error option" where
  "first_rejection [] = None"
| "first_rejection (Rejected e # ps) = Some e"
| "first_rejection (p # ps) = first_rejection ps"

fun fulfilled_values :: "'a outcome list \<Rightarrow> 'a list option" where
  "fulfilled_values [] = Some []"
| "fulfilled_values (Fulfilled v # ps) = map_option (Cons v) (fulfilled_values ps)"
| "fulfilled_values (p # ps) = None"

definition promise_all :: "'a outcome list \<Rightarrow> 'a list outcome" where
  "promise_all ps =
    (case first_rejection ps of
       Some e \<Rightarrow> Rejected e
     | None \<Rightarrow> (case fulfilled_values ps of Some vs \<Rightarrow> Fulfilled vs | None \<Rightarrow> Pending))"


section \<open>The state store (\<open>src/unnamed/part_000\<close>)\<close>

subsection \<open>The snapshot\<close>

text \<open>
  Dialogs, chats, users, messages, filters and drafts are declared in files outside the
  ones at hand and are only moved around here; they are handles.
\<close>

type_synonym dialog = nat
type_synonym chat = nat
type_synonym user = nat
type_synonym message = nat
type_synonym dialog_filter = nat
type_synonym draft = nat

datatype background_kind = Color | Image | Default

record Background =
  kind :: background_kind                      \<comment> \<open>field \<open>type\<close>\<close>
  blur :: bool
  highlightningColor :: "string option"
  color :: "string option"
  slug :: "string option"

datatype theme_name = Day | Night

record Theme =
  name :: theme_name
  background :: Background

datatype send_shortcut = Enter | CtrlEnter

record AutoDownload =                           \<comment> \<open>fields \<open>contacts\<close>, \<open>private\<close>, \<open>groups\<close>, \<open>channels\<close>\<close>
  ad_contacts :: bool
  ad_private :: bool
  ad_groups :: bool
  ad_channels :: bool

record AutoPlay =
  gifs :: bool
  videos :: bool

record Stickers =
  suggest :: bool
  loop :: bool

record Notifications =
  sound :: bool

text \<open>
  The code asks \<open>hasOwnProperty\<close> of \<open>themes\<close>, \<open>theme\<close> and \<open>nightTheme\<close> and the
  truthiness of the deprecated \<open>background\<close>: the four are optional, \<open>None\<close> for an absent
  property.
\<close>

record Settings =
  messagesTextSize :: int
  sendShortcut :: send_shortcut
  animationsEnabled :: bool
  autoDownload :: AutoDownload
  autoPlay :: AutoPlay
  stickers :: Stickers
  background_deprecated :: "Background option"     \<comment> \<open>field \<open>background\<close>, deprecated\<close>
  themes :: "Theme list option"
  theme :: "theme_name option"
  notifications :: Notifications
  nightTheme :: "bool option"                       \<comment> \<open>deprecated\<close>

record Updates =
  seq :: "int option"
  pts :: "int option"
  date :: "int option"

datatype AuthState = AuthStateSignIn | AuthStateSignedIn | AuthStateOther string

text \<open>
  \<open>users\<close> and \<open>chats\<close> are objects keyed by peer id. An own property may hold
  \<open>undefined\<close> (the refresh step below writes \<open>users[peerId] = state.users[peerId]\<close>
  whether or not the old record has the peer), so a key maps to an optional value:
  \<open>None\<close> is an absent key, \<open>Some None\<close> a key holding \<open>undefined\<close>.
\<close>

record State =
  dialogs :: "dialog list"
  allDialogsLoaded :: "int \<rightharpoonup> bool"
  chats :: "int \<rightharpoonup> chat option"
  users :: "int \<rightharpoonup> user option"
  messages :: "message list"
  contactsList :: "int list"
  updates :: Updates
  filters :: "int \<rightharpoonup> dialog_filter"
  maxSeenMsgId :: int
  stateCreatedTime :: int
  recentEmoji :: "string list"
  topPeers :: "int list"
  recentSearch :: "int list"
  version :: string
  authState :: AuthState
  hiddenPinnedMessages :: "int \<rightharpoonup> int"
  settings :: Settings
  keepSigned :: bool
  drafts :: "int \<rightharpoonup> draft"

definition REFRESH_EVERY :: int where
  "REFRESH_EVERY = 24 * 60 * 60 * 1000"

text \<open>
  \<open>STATE_INIT\<close> is built when the module is loaded: \<open>stateCreatedTime\<close> is
  \<open>Date.now()\<close> of that moment and \<open>version\<close> is \<open>App.version\<close>, both parameters here.
\<close>

definition STATE_INIT :: "int \<Rightarrow> string \<Rightarrow> State" where
  "STATE_INIT module_time STATE_VERSION =
    \<lparr> dialogs = [],
      allDialogsLoaded = Map.empty,
      chats = Map.empty,
      users = Map.empty,
      messages = [],
      contactsList = [],
      updates = \<lparr> seq = None, pts = None, date = None \<rparr>,
      filters = Map.empty,
      maxSeenMsgId = 0,
      stateCreatedTime = module_time,
      recentEmoji = [],
      topPeers = [],
      recentSearch = [],
      version = STATE_VERSION,
      authState = AuthStateSignIn,
      hiddenPinnedMessages = Map.empty,
      settings =
        \<lparr> messagesTextSize = 16,
          sendShortcut = Enter,
          animationsEnabled = True,
          autoDownload = \<lparr> ad_contacts = True, ad_private = True, ad_groups = True,
            ad_channels = True \<rparr>,
          autoPlay = \<lparr> gifs = True, videos = True \<rparr>,
          stickers = \<lparr> suggest = True, loop = True \<rparr>,
          background_deprecated = None,
          themes = Some
            [ \<lparr> name = Day,
                background = \<lparr> kind = Image, blur = False,
                  highlightningColor = Some ''hsla(85.5319, 36.9171%, 40.402%, 0.4)'',
                  color = None,
                  slug = Some ''ByxGo2lrMFAIAAAAmkJxZabh8eM'' \<rparr> \<rparr>,
              \<lparr> name = Night,
                background = \<lparr> kind = Color, blur = False,
                  highlightningColor = Some ''hsla(0, 0%, 3.82353%, 0.4)'',
                  color = Some ''#0f0f0f'',
                  slug = None \<rparr> \<rparr> ],
          theme = Some Day,
          notifications = \<lparr> sound = False \<rparr>,
          nightTheme = None \<rparr>,
      keepSigned = True,
      drafts = Map.empty \<rparr>"


subsection \<open>The manager object\<close>

text \<open>
  \<open>Loaded k\<close> is the promise \<open>this.loaded\<close> made by the
  \<open>k\<close>-th run of the load executor, \<open>Dep n\<close> a promise made elsewhere and handed to
  \<open>addLoadPromise\<close>. \<open>LoadAll ps\<close> is
  \<open>Promise.all(ps).then(() => this.state, () => this.state)\<close> and \<open>ResolvedWith s\<close> is
  \<open>Promise.resolve(s)\<close>.
\<close>

datatype load_promise = Loaded nat | Dep nat

datatype state_promise = LoadAll "load_promise list" | ResolvedWith State

datatype event = PeerNeeded int | PeerUnneeded int

datatype broadcast = User_auth int

text \<open>
  The fields of the class, the log of \<open>dispatchEvent\<close> calls, and the module-level
  objects its methods write: the constant \<open>STATE_INIT\<close> (one of the migrations assigns
  into it), \<open>rootScope.settings\<close> and the log of \<open>rootScope.broadcast\<close> calls.
  \<open>loads_started\<close> counts the runs of the load executor.
\<close>

record AppStateManager =
  loaded :: "load_promise option"
  loadPromises :: "load_promise list"
  loadAllPromise :: "state_promise option"
  state :: "State option"
  neededPeers :: "int \<rightharpoonup> string set"
  singlePeerMap :: "string \<rightharpoonup> int"
  dispatched :: "event list"
  loads_started :: nat
  STATE_INIT_now :: State
  rootScope_settings :: "Settings option"
  broadcasts :: "broadcast list"


subsection \<open>Peer demand: \<open>requestPeer\<close>, \<open>isPeerNeeded\<close>, \<open>keepPeerSingle\<close>\<close>

text \<open>
  The parameter \<open>type\<close> is \<open>ptype\<close>; \<open>limit\<close> is \<open>None\<close> when it is \<open>undefined\<close>.
  \<open>keepPeerSingle\<close>: \<open>existsPeerId && existsPeerId !== peerId\<close> is false for an absent
  entry and for the peer id \<open>0\<close>. \<open>this.neededPeers.get(existsPeerId)\<close> is \<open>undefined\<close>
  for a peer without an entry, and \<open>set.delete(type)\<close> on it throws a \<open>TypeError\<close>
  before \<open>singlePeerMap.set\<close> is reached.
\<close>

definition keepPeerSingle ::
  "int \<Rightarrow> string \<Rightarrow> AppStateManager \<Rightarrow> (unit, AppStateManager) completion" where
  "keepPeerSingle peerId ptype m =
    (let existsPeerId = singlePeerMap m ptype in
     if existsPeerId \<noteq> None \<and> the existsPeerId \<noteq> 0 \<and> the existsPeerId \<noteq> peerId then
       (case neededPeers m (the existsPeerId) of
          None \<Rightarrow> Throws TypeError m
        | Some tags \<Rightarrow>
            (let tags' = tags - {ptype};
                 m1 = m\<lparr> neededPeers := (neededPeers m)(the existsPeerId \<mapsto> tags') \<rparr>;
                 m2 = (if tags' = {}
                       then m1\<lparr> neededPeers := (neededPeers m1)(the existsPeerId := None),
                                dispatched := dispatched m1 @ [PeerUnneeded (the existsPeerId)] \<rparr>
                       else m1)
             in Returns () (m2\<lparr> singlePeerMap := (singlePeerMap m2)(ptype \<mapsto> peerId) \<rparr>)))
     else Returns () (m\<lparr> singlePeerMap := (singlePeerMap m)(ptype \<mapsto> peerId) \<rparr>))"

definition requestPeer ::
  "int \<Rightarrow> string \<Rightarrow> int option \<Rightarrow> AppStateManager \<Rightarrow> (unit, AppStateManager) completion" where
  "requestPeer peerId ptype limit m =
    (let tags = neededPeers m peerId in
     if tags \<noteq> None \<and> ptype \<in> the tags then Returns () m
     else
       (let tags1 = (case tags of None \<Rightarrow> {} | Some t \<Rightarrow> t);
            m1 = m\<lparr> neededPeers := (neededPeers m)(peerId \<mapsto> insert ptype tags1),
                     dispatched := dispatched m @ [PeerNeeded peerId] \<rparr>
        in if limit \<noteq> None then keepPeerSingle peerId ptype m1 else Returns () m1))"

definition isPeerNeeded :: "int \<Rightarrow> AppStateManager \<Rightarrow> bool" where
  "isPeerNeeded peerId m = (neededPeers m peerId \<noteq> None)"

text \<open>
  The tags registered for a peer, the object a call leaves behind, and running a second
  call on the object a first call returned.
\<close>

definition tags_of :: "AppStateManager \<Rightarrow> int \<Rightarrow> string set" where
  "tags_of m peerId = (case neededPeers m peerId of None \<Rightarrow> {} | Some t \<Rightarrow> t)"

definition object_after :: "('v, 's) completion \<Rightarrow> 's" where
  "object_after c = (case c of Returns v s \<Rightarrow> s | Throws e s \<Rightarrow> s)"

definition and_then ::
  "('v, 's) completion \<Rightarrow> ('s \<Rightarrow> ('w, 's) completion) \<Rightarrow> ('w, 's) completion" where
  "and_then c f = (case c of Returns v s \<Rightarrow> f s | Throws e s \<Rightarrow> Throws e s)"


subsection \<open>Loading: the callback of \<open>loadSavedState\<close>\<close>

text \<open>
  \<open>arr\<close>, the values \<open>sessionStorage.get\<close> gave for \<open>ALL_KEYS\<close> and for \<open>user_auth\<close>:
  \<open>None\<close> is \<open>undefined\<close>. A stored value has the type of its field. The authentication
  marker is a number (old versions) or an object with an \<open>id\<close>.
\<close>

datatype UserAuth = AuthNumber int | AuthObject int

record Stored =
  got_dialogs :: "dialog list option"
  got_allDialogsLoaded :: "(int \<rightharpoonup> bool) option"
  got_chats :: "(int \<rightharpoonup> chat option) option"
  got_users :: "(int \<rightharpoonup> user option) option"
  got_messages :: "message list option"
  got_contactsList :: "int list option"
  got_updates :: "Updates option"
  got_filters :: "(int \<rightharpoonup> dialog_filter) option"
  got_maxSeenMsgId :: "int option"
  got_stateCreatedTime :: "int option"
  got_recentEmoji :: "string list option"
  got_topPeers :: "int list option"
  got_recentSearch :: "int list option"
  got_version :: "string option"
  got_authState :: "AuthState option"
  got_hiddenPinnedMessages :: "(int \<rightharpoonup> int) option"
  got_settings :: "Settings option"
  got_keepSigned :: "bool option"
  got_drafts :: "(int \<rightharpoonup> draft) option"
  got_user_auth :: "UserAuth option"

text \<open>\<open>value !== undefined ? value : copy(STATE_INIT[key])\<close>\<close>

definition value_or :: "'a option \<Rightarrow> 'a \<Rightarrow> 'a" where
  "value_or v d = (case v of Some x \<Rightarrow> x | None \<Rightarrow> d)"

definition state_of_stored :: "State \<Rightarrow> Stored \<Rightarrow> State" where
  "state_of_stored init arr =
    \<lparr> dialogs = value_or (got_dialogs arr) (dialogs init),
      allDialogsLoaded = value_or (got_allDialogsLoaded arr) (allDialogsLoaded init),
      chats = value_or (got_chats arr) (chats init),
      users = value_or (got_users arr) (users init),
      messages = value_or (got_messages arr) (messages init),
      contactsList = value_or (got_contactsList arr) (contactsList init),
      updates = value_or (got_updates arr) (updates init),
      filters = value_or (got_filters arr) (filters init),
      maxSeenMsgId = value_or (got_maxSeenMsgId arr) (maxSeenMsgId init),
      stateCreatedTime = value_or (got_stateCreatedTime arr) (stateCreatedTime init),
      recentEmoji = value_or (got_recentEmoji arr) (recentEmoji init),
      topPeers = value_or (got_topPeers arr) (topPeers init),
      recentSearch = value_or (got_recentSearch arr) (recentSearch init),
      version = value_or (got_version arr) (version init),
      authState = value_or (got_authState arr) (authState init),
      hiddenPinnedMessages = value_or (got_hiddenPinnedMessages arr) (hiddenPinnedMessages init),
      settings = value_or (got_settings arr) (settings init),
      keepSigned = value_or (got_keepSigned arr) (keepSigned init),
      drafts = value_or (got_drafts arr) (drafts init) \<rparr>"

text \<open>Reading \<open>obj[peerId]\<close>: \<open>undefined\<close> for an absent key and for a key holding it.\<close>

definition prop_get :: "(int \<rightharpoonup> 'a option) \<Rightarrow> int \<Rightarrow> 'a option" where
  "prop_get obj peerId = (case obj peerId of None \<Rightarrow> None | Some v \<Rightarrow> v)"

text \<open>
  The body of \<open>state.recentSearch.forEach\<close>, on the pair of the new \<open>users\<close> and
  \<open>chats\<close> objects.
\<close>

definition keep_recent ::
  "State \<Rightarrow> int \<Rightarrow> (int \<rightharpoonup> user option) \<times> (int \<rightharpoonup> chat option)
     \<Rightarrow> (int \<rightharpoonup> user option) \<times> (int \<rightharpoonup> chat option)" where
  "keep_recent st peerId uc =
    (if peerId < 0 then (fst uc, (snd uc)(peerId \<mapsto> prop_get (chats st) peerId))
     else ((fst uc)(peerId \<mapsto> prop_get (users st) peerId), snd uc))"

text \<open>
  The refresh branch: every key of \<open>REFRESH_KEYS\<close> is reset to a copy of its default,
  then \<open>users\<close> and \<open>chats\<close> are rebuilt from \<open>recentSearch\<close>.
\<close>

definition refresh :: "State \<Rightarrow> State \<Rightarrow> State" where
  "refresh init st =
    (let st1 = st\<lparr> dialogs := dialogs init,
                   allDialogsLoaded := allDialogsLoaded init,
                   messages := messages init,
                   contactsList := contactsList init,
                   stateCreatedTime := stateCreatedTime init,
                   updates := updates init,
                   maxSeenMsgId := maxSeenMsgId init,
                   filters := filters init,
                   topPeers := topPeers init \<rparr>;
         uc = (if recentSearch st1 \<noteq> []
               then fold (keep_recent st1) (recentSearch st1) (Map.empty, Map.empty)
               else (Map.empty, Map.empty))
     in st1\<lparr> users := fst uc, chats := snd uc \<rparr>)"

text \<open>
  The two migrations. The first assigns into \<open>STATE_INIT\<close>, not into the state: the
  theme of \<open>STATE_INIT.settings.themes\<close> that \<open>find\<close> returns (the first one named like
  \<open>STATE_INIT.settings.theme\<close>) gets a copy of the deprecated background.
\<close>

fun assign_background :: "theme_name option \<Rightarrow> Background \<Rightarrow> Theme list \<Rightarrow> Theme list" where
  "assign_background n b [] = []"
| "assign_background n b (t # ts) =
    (if Some (name t) = n then t\<lparr> background := b \<rparr> # ts else t # assign_background n b ts)"

definition migrate_background :: "State \<Rightarrow> State \<Rightarrow> js_error + State" where
  "migrate_background init st =
    (if themes (settings st) = None \<and> background_deprecated (settings st) \<noteq> None then
       (case themes (settings init) of
          None \<Rightarrow> Inl TypeError
        | Some ts \<Rightarrow>
            Inr (init\<lparr> settings := (settings init)\<lparr> themes :=
              Some (assign_background (theme (settings init))
                      (the (background_deprecated (settings st))) ts) \<rparr> \<rparr>))
     else Inr init)"

definition migrate_theme :: "State \<Rightarrow> State" where
  "migrate_theme st =
    (if theme (settings st) = None \<and> nightTheme (settings st) \<noteq> None
     then st\<lparr> settings := (settings st)\<lparr> theme :=
            Some (if the (nightTheme (settings st)) then Night else Day) \<rparr> \<rparr>
     else st)"

text \<open>The two migrations in sequence, on \<open>STATE_INIT\<close> and the state.\<close>

definition migrations :: "State \<Rightarrow> State \<Rightarrow> js_error + State \<times> State" where
  "migrations init st =
    (case migrate_background init st of
       Inl e \<Rightarrow> Inl e
     | Inr init' \<Rightarrow> Inr (init', migrate_theme st))"

text \<open>
  \<open>validateInitObject\<close> (\<open>helpers/object\<close>) is not among the source files: it is a
  parameter of the environment. It is called with \<open>STATE_INIT\<close> and the state, to check
  that every field the default schema declares is present, recursively. Every top-level
  field of a \<open>State\<close> is present and of its type, so the call can only concern the
  settings, where \<open>themes\<close> and \<open>theme\<close> may be absent: from the settings of
  \<open>STATE_INIT\<close> and those of the state, the parameter gives the settings it leaves in
  the state, or the error it throws.

  The environment also holds \<open>STATE_VERSION\<close> (\<open>App.version\<close>) and \<open>Date.now()\<close> as the
  callback reads it.
\<close>

record load_env =
  STATE_VERSION :: string
  validateInitObject :: "Settings \<Rightarrow> Settings \<Rightarrow> js_error + Settings"
  time :: int

text \<open>
  \<open>if(auth)\<close>: the number \<open>0\<close> is falsy, an object is truthy. The identity broadcast is
  \<open>typeof(auth) !== 'number' ? auth.id : auth\<close>.
\<close>

fun auth_truthy :: "UserAuth option \<Rightarrow> bool" where
  "auth_truthy None = False"
| "auth_truthy (Some (AuthNumber n)) = (n \<noteq> 0)"
| "auth_truthy (Some (AuthObject i)) = True"

fun auth_id :: "UserAuth \<Rightarrow> int" where
  "auth_id (AuthNumber n) = n"
| "auth_id (AuthObject i) = i"

text \<open>
  The callback given to \<open>then\<close> in \<open>loadSavedState\<close>. It returns the value it passes to
  \<open>resolve\<close>, or throws; a throw happens before \<open>this.state\<close> is assigned.
\<close>

definition loadSavedState_then ::
  "load_env \<Rightarrow> Stored \<Rightarrow> AppStateManager \<Rightarrow> (State, AppStateManager) completion" where
  "loadSavedState_then env arr m =
    (let st0 = state_of_stored (STATE_INIT_now m) arr;
         st1 = (if stateCreatedTime st0 + REFRESH_EVERY < time env
                then refresh (STATE_INIT_now m) st0 else st0)
     in case migrations (STATE_INIT_now m) st1 of
          Inl e \<Rightarrow> Throws e m
        | Inr (init', st2) \<Rightarrow>
            (let m1 = m\<lparr> STATE_INIT_now := init' \<rparr>
             in case validateInitObject env (settings init') (settings st2) of
                  Inl e \<Rightarrow> Throws e m1
                | Inr settings' \<Rightarrow>
                    (let st3 = st2\<lparr> settings := settings', version := STATE_VERSION env \<rparr>;
                         st4 = (if auth_truthy (got_user_auth arr)
                                then st3\<lparr> authState := AuthStateSignedIn \<rparr> else st3);
                         m2 = m1\<lparr> state := Some st4,
                                  rootScope_settings := Some settings',
                                  broadcasts :=
                                    (if auth_truthy (got_user_auth arr)
                                     then broadcasts m1 @ [User_auth (auth_id (the (got_user_auth arr)))]
                                     else broadcasts m1) \<rparr>
                     in Returns st4 m2)))"

text \<open>
  The reads are one promise per key. Their values are of different types: \<open>gets\<close> says
  how each read settles and \<open>arr\<close> holds the values for when all are fulfilled.
\<close>

definition reads_of :: "'v outcome list \<Rightarrow> Stored \<Rightarrow> Stored outcome" where
  "reads_of gets arr = promise_then1 (promise_all gets) (\<lambda>vs. Inr arr)"

text \<open>
  \<open>this.loaded\<close> is
  \<open>new Promise(resolve => Promise.all(reads).then(callback).catch(resolve))\<close>.
  \<open>resolve\<close> is reached with the state at the end of the callback, or with the value
  \<open>catch\<close> hands to it when a read was rejected or the callback threw; the chain is
  followed with the value that reaches \<open>resolve\<close>. \<open>reads\<close> is the outcome of
  \<open>Promise.all\<close> of the reads, \<open>m\<close> the manager as the callback finds it.
\<close>

datatype loaded_value = Snapshot State | Caught js_error

definition loaded_outcome ::
  "load_env \<Rightarrow> Stored outcome \<Rightarrow> AppStateManager \<Rightarrow> loaded_value outcome" where
  "loaded_outcome env reads m =
    promise_catch
      (promise_then1 reads
         (\<lambda>arr. case loadSavedState_then env arr m of
                  Returns st m' \<Rightarrow> Inr (Snapshot st)
                | Throws e m' \<Rightarrow> Inl e))
      (\<lambda>e. Inr (Caught e))"


subsection \<open>\<open>loadSavedState\<close>, \<open>addLoadPromise\<close>, \<open>getState\<close>\<close>

text \<open>
  The two methods call each other: \<open>addLoadPromise\<close> starts the load when none was
  started, and \<open>loadSavedState\<close> registers \<open>this.loaded\<close> through \<open>addLoadPromise\<close>.
\<close>

function loadSavedState :: "AppStateManager \<Rightarrow> state_promise \<times> AppStateManager"
  and addLoadPromise :: "load_promise \<Rightarrow> AppStateManager \<Rightarrow> state_promise \<times> AppStateManager"
where
  "loadSavedState m =
    (if loadAllPromise m \<noteq> None then (the (loadAllPromise m), m)
     else addLoadPromise (Loaded (loads_started m))
            (m\<lparr> loaded := Some (Loaded (loads_started m)),
                loads_started := Suc (loads_started m) \<rparr>))"
| "addLoadPromise promise m =
    (if loaded m = None then loadSavedState m
     else (LoadAll (loadPromises m @ [promise]),
           m\<lparr> loadPromises := loadPromises m @ [promise],
               loadAllPromise := Some (LoadAll (loadPromises m @ [promise])) \<rparr>))"
  by pat_completeness auto
termination
  by (relation "measure (\<lambda>x. case x of Inl m \<Rightarrow> 1
          | Inr (p, m) \<Rightarrow> (if loaded m = None then 2 else 0))") auto

definition getState :: "AppStateManager \<Rightarrow> state_promise \<times> AppStateManager" where
  "getState m =
    (case state m of None \<Rightarrow> loadSavedState m | Some s \<Rightarrow> (ResolvedWith s, m))"

text \<open>
  The object before the constructor runs, and the constructor, which calls
  \<open>loadSavedState\<close>.
\<close>

definition fields_init :: "State \<Rightarrow> AppStateManager" where
  "fields_init init =
    \<lparr> loaded = None, loadPromises = [], loadAllPromise = None, state = None,
      neededPeers = Map.empty, singlePeerMap = Map.empty, dispatched = [],
      loads_started = 0, STATE_INIT_now = init, rootScope_settings = None,
      broadcasts = [] \<rparr>"

definition new_AppStateManager :: "State \<Rightarrow> AppStateManager" where
  "new_AppStateManager init = snd (loadSavedState (fields_init init))"

text \<open>
  How the promises of the manager settle, from \<open>settles\<close>, the outcome of each
  registered promise. The two handlers of \<open>LoadAll\<close> take no argument and return
  \<open>this.state\<close> as it is when they run, \<open>state_then\<close>.
\<close>

fun state_promise_outcome ::
  "(load_promise \<Rightarrow> 'v outcome) \<Rightarrow> State option \<Rightarrow> state_promise \<Rightarrow> State option outcome" where
  "state_promise_outcome settles state_then (LoadAll ps) =
    promise_then (promise_all (map settles ps)) (\<lambda>vs. Inr state_then) (\<lambda>e. Inr state_then)"
| "state_promise_outcome settles state_then (ResolvedWith s) = Fulfilled (Some s)"


subsection \<open>The promises of the manager over time\<close>







section \<open>The document registry and resource cache (\<open>appDocsManager.ts\<close>)\<close>

subsection \<open>Descriptors\<close>

text \<open>
  \<open>MTDocument\<close> is declared outside the files at hand; its fields are the ones the code
  reads and writes. An optional field is \<open>None\<close> when the property is \<open>undefined\<close>.
  Byte arrays and blobs are objects, hence truthy whenever present. The fields \<open>_\<close>,
  \<open>id\<close>, \<open>size\<close> and \<open>type\<close> are \<open>ctor\<close>, \<open>id'\<close>, \<open>size'\<close> and \<open>type'\<close>.
\<close>

type_synonym byte_array = "nat list"
type_synonym blob = "nat list"
type_synonym file_location = nat
type_synonym file_entry = nat

record PhotoSize =
  size_type :: string                         \<comment> \<open>field \<open>type\<close>\<close>
  bytes :: "byte_array option"

datatype legacy_thumb =
    PhotoSizeEmpty
  | PhotoSizeAt file_location nat             \<comment> \<open>\<open>photoSize\<close>: location, size\<close>
  | PhotoCachedSize file_location byte_array  \<comment> \<open>\<open>photoCachedSize\<close>: location, bytes\<close>

datatype input_sticker_set =
    InputStickerSetEmpty
  | InputStickerSetID string string
  | InputStickerSetOther string

datatype attribute =
    DocumentAttributeFilename string
  | DocumentAttributeAudio int "string option" "string option" bool
      \<comment> \<open>duration, title, performer, \<open>pFlags.voice\<close>\<close>
  | DocumentAttributeVideo int int int bool
      \<comment> \<open>duration, w, h, \<open>pFlags.round_message\<close>\<close>
  | DocumentAttributeSticker "string option" "input_sticker_set option"
      \<comment> \<open>alt, stickerset\<close>
  | DocumentAttributeImageSize int int
  | DocumentAttributeAnimated
  | DocumentAttributeOther string
      \<comment> \<open>any constructor the \<open>switch\<close> has no case for\<close>

record MTDocument =
  ctor :: string
  id' :: string
  access_hash :: string
  file_reference :: byte_array
  dc_id :: int
  size' :: int
  mime_type :: "string option"
  thumbs :: "PhotoSize list option"
  thumb :: "legacy_thumb option"
  attributes :: "attribute list"
  file_name :: "string option"
  duration :: "int option"
  audioTitle :: "string option"
  audioPerformer :: "string option"
  type' :: "string option"
  w :: "int option"
  h :: "int option"
  stickerEmojiRaw :: "string option"
  stickerEmoji :: "string option"
  stickerSetInput :: "input_sticker_set option"
  sticker :: "int option"
  animated :: "bool option"
  downloaded :: "bool option"
  url :: "string option"

text \<open>Truthiness of an optional string and of an optional number.\<close>

definition truthy :: "string option \<Rightarrow> bool" where
  "truthy v = (v \<noteq> None \<and> v \<noteq> Some [])"

definition truthy_num :: "int option \<Rightarrow> bool" where
  "truthy_num v = (v \<noteq> None \<and> v \<noteq> Some 0)"


subsection \<open>Collaborators\<close>

text \<open>
  \<open>apiFileManager\<close>, \<open>RichTextProcessor\<close> and \<open>URL.createObjectURL\<close> are not among the
  source files: they are parameters. \<open>'fm\<close> is the state of the file manager; a
  download function returns the identity of the promise it hands out and the file
  manager's next state, so it may hand out a new promise on every call or the same one
  again.
\<close>

record InputFileLocation =
  loc_id :: string
  loc_access_hash :: string
  loc_file_reference :: byte_array
  thumb_size :: "string option"

record download_options =
  mimeType :: string
  toFileEntry :: "file_entry option"
  stickerType :: "int option"

record small_options =
  dcID :: int
  small_stickerType :: "int option"
  small_mimeType :: "string option"

datatype transfer_call =
    DownloadFile int InputFileLocation int download_options
  | DownloadSmallFile InputFileLocation small_options
  | SaveSmallFile file_location byte_array

record 'fm collaborators =
  downloadFile :: "'fm \<Rightarrow> int \<Rightarrow> InputFileLocation \<Rightarrow> int \<Rightarrow> download_options \<Rightarrow> nat \<times> 'fm"
  downloadSmallFile :: "'fm \<Rightarrow> InputFileLocation \<Rightarrow> small_options \<Rightarrow> nat \<times> 'fm"
  getCachedFile :: "'fm \<Rightarrow> InputFileLocation \<Rightarrow> blob option"
  saveSmallFile :: "'fm \<Rightarrow> file_location \<Rightarrow> byte_array \<Rightarrow> 'fm"
  wrapPlainText :: "string \<Rightarrow> string"
  wrapRichText :: "string \<Rightarrow> string"
  createObjectURL :: "blob \<Rightarrow> string"

text \<open>
  The promises the manager returns: the one a download function handed out,
  \<open>Promise.reject()\<close>, \<open>Promise.resolve(v)\<close>, and
  \<open>promise.then(blob => URL.createObjectURL(blob))\<close>.
\<close>

datatype doc_promise =
    Transfer nat
  | Promise_reject
  | Promise_resolve "blob option"
  | Then_createObjectURL doc_promise

text \<open>
  The fields of the class (\<open>thumbs\<close> is \<open>thumbs'\<close>), the state of the file manager and
  the log of the calls made to it.
\<close>

record 'fm AppDocsManager =
  docs :: "string \<rightharpoonup> MTDocument"
  thumbs' :: "string \<rightharpoonup> doc_promise"
  fileManager :: "'fm"
  calls :: "transfer_call list"


subsection \<open>\<open>saveDoc\<close>\<close>

text \<open>
  The body of \<open>apiDoc.attributes.forEach\<close>: the descriptor and the attribute after one
  step (the sticker case deletes \<open>attribute.stickerset\<close> when it is empty).
\<close>

fun attribute_step :: "'fm collaborators \<Rightarrow> attribute \<Rightarrow> MTDocument \<Rightarrow> MTDocument \<times> attribute" where
  "attribute_step C (DocumentAttributeFilename fname) apiDoc =
    (apiDoc\<lparr> file_name := Some (wrapPlainText C fname) \<rparr>, DocumentAttributeFilename fname)"
| "attribute_step C (DocumentAttributeAudio dur title performer voice) apiDoc =
    (apiDoc\<lparr> duration := Some dur, audioTitle := title, audioPerformer := performer,
             type' := Some (if voice then ''voice'' else ''audio'') \<rparr>,
     DocumentAttributeAudio dur title performer voice)"
| "attribute_step C (DocumentAttributeVideo dur vw vh round_message) apiDoc =
    (apiDoc\<lparr> duration := Some dur, w := Some vw, h := Some vh,
             type' := Some (if thumbs apiDoc \<noteq> None \<and> round_message then ''round'' else ''video'') \<rparr>,
     DocumentAttributeVideo dur vw vh round_message)"
| "attribute_step C (DocumentAttributeSticker alt stickerset) apiDoc =
    (let d1 = (case alt of
                 None \<Rightarrow> apiDoc
               | Some a \<Rightarrow> apiDoc\<lparr> stickerEmojiRaw := Some a,
                                    stickerEmoji := Some (wrapRichText C a) \<rparr>);
         d2 = (case stickerset of
                 Some (InputStickerSetID i ah) \<Rightarrow> d1\<lparr> stickerSetInput := stickerset \<rparr>
               | _ \<Rightarrow> d1);
         stickerset' = (if stickerset = Some InputStickerSetEmpty then None else stickerset);
         d3 = (if mime_type d2 = Some ''image/webp''
               then d2\<lparr> type' := Some ''sticker'', sticker := Some 1 \<rparr> else d2)
     in (d3, DocumentAttributeSticker alt stickerset'))"
| "attribute_step C (DocumentAttributeImageSize iw ih) apiDoc =
    (apiDoc\<lparr> w := Some iw, h := Some ih \<rparr>, DocumentAttributeImageSize iw ih)"
| "attribute_step C DocumentAttributeAnimated apiDoc =
    ((if (mime_type apiDoc = Some ''image/gif'' \<or> mime_type apiDoc = Some ''video/mp4'')
          \<and> thumbs apiDoc \<noteq> None
      then apiDoc\<lparr> type' := Some ''gif'' \<rparr> else apiDoc)\<lparr> animated := Some True \<rparr>,
     DocumentAttributeAnimated)"
| "attribute_step C (DocumentAttributeOther c) apiDoc = (apiDoc, DocumentAttributeOther c)"

fun attributes_forEach ::
  "'fm collaborators \<Rightarrow> attribute list \<Rightarrow> MTDocument \<Rightarrow> MTDocument \<times> attribute list" where
  "attributes_forEach C [] apiDoc = (apiDoc, [])"
| "attributes_forEach C (a # as) apiDoc =
    (let (d1, a') = attribute_step C a apiDoc;
         (d2, as') = attributes_forEach C as d1
     in (d2, a' # as'))"

text \<open>The \<open>switch(apiDoc.type)\<close> that fills in a missing MIME type.\<close>

definition mime_of_type :: "string option \<Rightarrow> string" where
  "mime_of_type t =
    (if t = Some ''gif'' then ''video/mp4''
     else if t = Some ''video'' \<or> t = Some ''round'' then ''video/mp4''
     else if t = Some ''sticker'' then ''image/webp''
     else if t = Some ''audio'' then ''audio/mpeg''
     else if t = Some ''voice'' then ''audio/ogg''
     else ''application/octet-stream'')"

text \<open>
  The first-insert path after \<open>this.docs[apiDoc.id] = apiDoc\<close>, in three parts: the
  legacy \<open>thumb\<close> (a cached one is handed to \<open>saveSmallFile\<close> and loses its bytes, an
  empty one is deleted), the attributes, and the defaults that follow the loop.
\<close>

definition legacy_thumb_step ::
  "'fm collaborators \<Rightarrow> MTDocument \<Rightarrow> 'fm \<Rightarrow> MTDocument \<times> 'fm \<times> transfer_call list" where
  "legacy_thumb_step C apiDoc fm =
    (let (d1, fm1, log) =
           (case thumb apiDoc of
              Some (PhotoCachedSize l b) \<Rightarrow>
                (apiDoc\<lparr> thumb := Some (PhotoSizeAt l (length b)) \<rparr>,
                 saveSmallFile C fm l b, [SaveSmallFile l b])
            | _ \<Rightarrow> (apiDoc, fm, []));
         d2 = (if thumb d1 = Some PhotoSizeEmpty then d1\<lparr> thumb := None \<rparr> else d1)
     in (d2, fm1, log))"

definition defaults_step :: "MTDocument \<Rightarrow> MTDocument" where
  "defaults_step d4 =
    (let d5 = (if \<not> truthy (mime_type d4)
               then d4\<lparr> mime_type := Some (mime_of_type (type' d4)) \<rparr> else d4);
         d6 = (if \<not> truthy (file_name d5) then d5\<lparr> file_name := Some [] \<rparr> else d5);
         d7 = (if mime_type d6 = Some ''application/x-tgsticker''
                  \<and> file_name d6 = Some ''AnimatedSticker.tgs''
               then d6\<lparr> type' := Some ''sticker'', animated := Some True, sticker := Some 2 \<rparr>
               else d6);
         d8 = (if ctor d7 = ''documentEmpty'' then d7\<lparr> size' := 0 \<rparr> else d7)
     in d8)"

definition first_insert ::
  "'fm collaborators \<Rightarrow> MTDocument \<Rightarrow> 'fm \<Rightarrow> MTDocument \<times> 'fm \<times> transfer_call list" where
  "first_insert C apiDoc fm =
    (let (d2, fm1, log) = legacy_thumb_step C apiDoc fm;
         (d3, attrs) = attributes_forEach C (attributes d2) d2
     in (defaults_step (d3\<lparr> attributes := attrs \<rparr>), fm1, log))"

text \<open>
  The merge of thumbnails into a stored descriptor \<open>d\<close>. An array is truthy even when
  empty, and \<open>[][0].bytes\<close> throws.
\<close>

definition merge_thumbs :: "MTDocument \<Rightarrow> MTDocument \<Rightarrow> js_error + MTDocument" where
  "merge_thumbs apiDoc d =
    (case thumbs apiDoc of
       None \<Rightarrow> Inr d
     | Some new \<Rightarrow>
         (case thumbs d of
            None \<Rightarrow> Inr (d\<lparr> thumbs := Some new \<rparr>)
          | Some old \<Rightarrow>
              (case new of
                 [] \<Rightarrow> Inl TypeError
               | n0 # ns \<Rightarrow>
                   if bytes n0 \<noteq> None then
                     (case old of
                        [] \<Rightarrow> Inl TypeError
                      | o0 # os \<Rightarrow>
                          if bytes o0 = None then Inr (d\<lparr> thumbs := Some (n0 # old) \<rparr>)
                          else Inr d)
                   else Inr d)))"

text \<open>
  \<open>Object.assign(d, context)\<close> copies the own properties of \<open>context\<close> onto \<open>d\<close>; a
  context is given by what that does to a descriptor. \<open>None\<close> is no context.
\<close>

type_synonym doc_context = "MTDocument \<Rightarrow> MTDocument"

definition assign :: "MTDocument \<Rightarrow> doc_context option \<Rightarrow> MTDocument" where
  "assign d context = (case context of None \<Rightarrow> d | Some f \<Rightarrow> f d)"

definition saveDoc ::
  "'fm collaborators \<Rightarrow> MTDocument \<Rightarrow> doc_context option \<Rightarrow> 'fm AppDocsManager
     \<Rightarrow> (MTDocument, 'fm AppDocsManager) completion" where
  "saveDoc C apiDoc context m =
    (case docs m (id' apiDoc) of
       Some d \<Rightarrow>
         (case merge_thumbs apiDoc d of
            Inl e \<Rightarrow> Throws e m
          | Inr d1 \<Rightarrow>
              (let d2 = assign d1 context
               in Returns d2 (m\<lparr> docs := (docs m)(id' apiDoc \<mapsto> d2) \<rparr>)))
     | None \<Rightarrow>
         (let apiDoc1 = assign apiDoc context;
              (d, fm1, log) = first_insert C apiDoc1 (fileManager m)
          in Returns d (m\<lparr> docs := (docs m)(id' apiDoc1 \<mapsto> d),
                             fileManager := fm1,
                             calls := calls m @ log \<rparr>)))"


subsection \<open>\<open>getDoc\<close>, \<open>getInputByID\<close>\<close>

text \<open>The argument \<open>docID\<close> is an identity or a descriptor object.\<close>

datatype doc_arg = DocID string | DocObject MTDocument

definition getDoc :: "doc_arg \<Rightarrow> 'fm AppDocsManager \<Rightarrow> MTDocument option" where
  "getDoc docID m = (case docID of DocObject d \<Rightarrow> Some d | DocID i \<Rightarrow> docs m i)"

definition getInputByID :: "MTDocument \<Rightarrow> string option \<Rightarrow> InputFileLocation" where
  "getInputByID doc thumbSize =
    \<lparr> loc_id = id' doc, loc_access_hash = access_hash doc,
      loc_file_reference = file_reference doc, thumb_size = thumbSize \<rparr>"


subsection \<open>\<open>downloadDoc\<close>\<close>

text \<open>
  With no descriptor for \<open>docID\<close>, reading \<open>doc.id\<close> throws. Otherwise the method
  returns a settled promise for an empty document and for a cached copy, and in every
  other case calls \<open>apiFileManager.downloadFile\<close> and returns the promise that call
  returned. The manager keeps no table of running downloads (the comment above the call
  says that \<open>downloadFile\<close> returns the running one anyway).
\<close>

definition download_options_of :: "MTDocument \<Rightarrow> file_entry option \<Rightarrow> download_options" where
  "download_options_of doc sink =
    \<lparr> mimeType = (if truthy (mime_type doc) then the (mime_type doc)
                  else ''application/octet-stream''),
      toFileEntry = sink,
      stickerType = sticker doc \<rparr>"

definition downloadDoc ::
  "'fm collaborators \<Rightarrow> doc_arg \<Rightarrow> file_entry option \<Rightarrow> 'fm AppDocsManager
     \<Rightarrow> (doc_promise, 'fm AppDocsManager) completion" where
  "downloadDoc C docID sink m =
    (case getDoc docID m of
       None \<Rightarrow> Throws TypeError m
     | Some doc \<Rightarrow>
         (let inputFileLocation = getInputByID doc None in
          if ctor doc = ''documentEmpty'' then Returns Promise_reject m
          else if downloaded doc = Some True \<and> sink = None \<and> truthy (url doc)
          then Returns (Promise_resolve None) m
          else if downloaded doc = Some True \<and> sink = None
                  \<and> getCachedFile C (fileManager m) inputFileLocation \<noteq> None
          then Returns (Promise_resolve (getCachedFile C (fileManager m) inputFileLocation)) m
          else
            (let opts = download_options_of doc sink;
                 (p, fm1) = downloadFile C (fileManager m) (dc_id doc) inputFileLocation
                              (size' doc) opts
             in Returns (Transfer p)
                  (m\<lparr> fileManager := fm1,
                      calls := calls m @ [DownloadFile (dc_id doc) inputFileLocation (size' doc) opts] \<rparr>))))"

text \<open>
  The fulfilment handler \<open>downloadDoc\<close> attaches to the promise, as it changes the
  descriptor \<open>doc\<close> it closes over. The rejection handler only logs. The promise the
  handlers make is dropped: callers hold the file manager's promise.
\<close>

definition downloadDoc_fulfilled :: "'fm collaborators \<Rightarrow> MTDocument \<Rightarrow> blob option \<Rightarrow> MTDocument" where
  "downloadDoc_fulfilled C doc blob =
    (case blob of
       None \<Rightarrow> doc
     | Some b \<Rightarrow>
         (let d1 = doc\<lparr> downloaded := Some True \<rparr>
          in if truthy (type' d1) \<and> sticker d1 \<noteq> Some 2
             then d1\<lparr> url := Some (createObjectURL C b) \<rparr> else d1))"


subsection \<open>\<open>downloadDocThumb\<close>, \<open>hasDownloadedThumb\<close>\<close>

definition thumb_key :: "string \<Rightarrow> string \<Rightarrow> string" where
  "thumb_key docId thumbSize = docId @ ''-'' @ thumbSize"

definition small_options_of :: "MTDocument \<Rightarrow> small_options" where
  "small_options_of doc =
    \<lparr> dcID = dc_id doc,
      small_stickerType = (if truthy_num (sticker doc) then Some 1 else None),
      small_mimeType = (if truthy_num (sticker doc) then Some ''image/webp'' else mime_type doc) \<rparr>"

definition downloadDocThumb ::
  "'fm collaborators \<Rightarrow> doc_arg \<Rightarrow> string \<Rightarrow> 'fm AppDocsManager
     \<Rightarrow> (doc_promise, 'fm AppDocsManager) completion" where
  "downloadDocThumb C docID thumbSize m =
    (case getDoc docID m of
       None \<Rightarrow> Throws TypeError m
     | Some doc \<Rightarrow>
         (let key = thumb_key (id' doc) thumbSize in
          case thumbs' m key of
            Some cached \<Rightarrow> Returns cached m
          | None \<Rightarrow>
              (let input = getInputByID doc (Some thumbSize) in
               if ctor doc = ''documentEmpty'' then Returns Promise_reject m
               else
                 (let (p, fm1) = downloadSmallFile C (fileManager m) input (small_options_of doc);
                      promise = Then_createObjectURL (Transfer p)
                  in Returns promise
                       (m\<lparr> thumbs' := (thumbs' m)(key \<mapsto> promise),
                           fileManager := fm1,
                           calls := calls m @ [DownloadSmallFile input (small_options_of doc)] \<rparr>)))))"

definition hasDownloadedThumb :: "string \<Rightarrow> string \<Rightarrow> 'fm AppDocsManager \<Rightarrow> bool" where
  "hasDownloadedThumb docID thumbSize m = (thumbs' m (thumb_key docID thumbSize) \<noteq> None)"

text \<open>
  How the manager's promises settle, from \<open>transfer\<close>, the outcome of each promise of
  the file manager. \<open>URL.createObjectURL\<close> throws when it is not given a blob.
\<close>

datatype settled_value = Bytes "blob option" | ObjectURL string

fun doc_promise_outcome ::
  "'fm collaborators \<Rightarrow> (nat \<Rightarrow> blob option outcome) \<Rightarrow> doc_promise \<Rightarrow> settled_value outcome" where
  "doc_promise_outcome C transfer (Transfer p) = promise_then1 (transfer p) (\<lambda>b. Inr (Bytes b))"
| "doc_promise_outcome C transfer Promise_reject = Rejected Undefined"
| "doc_promise_outcome C transfer (Promise_resolve v) = Fulfilled (Bytes v)"
| "doc_promise_outcome C transfer (Then_createObjectURL q) =
    promise_then1 (doc_promise_outcome C transfer q)
      (\<lambda>v. case v of
             Bytes (Some b) \<Rightarrow> Inr (ObjectURL (createObjectURL C b))
           | Bytes None \<Rightarrow> Inl TypeError
           | ObjectURL u \<Rightarrow> Inl TypeError)"

text \<open>
  Two file managers to run the model on. The first hands out a new promise on every
  call. The second keeps the locations it is downloading and hands out the running
  promise for a location it already has (what the comment in \<open>downloadDoc\<close> expects).
\<close>

definition fresh_collaborators :: "nat collaborators" where
  "fresh_collaborators =
    \<lparr> downloadFile = (\<lambda>n dc l sz opts. (n, Suc n)),
      downloadSmallFile = (\<lambda>n l opts. (n, Suc n)),
      getCachedFile = (\<lambda>n l. None),
      saveSmallFile = (\<lambda>n l b. n),
      wrapPlainText = (\<lambda>t. t),
      wrapRichText = (\<lambda>t. t),
      createObjectURL = (\<lambda>b. ''blob:'' @ map (\<lambda>n. char_of n) b) \<rparr>"

definition running :: "(InputFileLocation \<times> nat) list \<Rightarrow> InputFileLocation \<Rightarrow> nat \<times> (InputFileLocation \<times> nat) list" where
  "running tab l =
    (case map_of tab l of
       Some p \<Rightarrow> (p, tab)
     | None \<Rightarrow> (length tab, tab @ [(l, length tab)]))"

definition sharing_collaborators :: "((InputFileLocation \<times> nat) list) collaborators" where
  "sharing_collaborators =
    \<lparr> downloadFile = (\<lambda>tab dc l sz opts. running tab l),
      downloadSmallFile = (\<lambda>tab l opts. running tab l),
      getCachedFile = (\<lambda>tab l. None),
      saveSmallFile = (\<lambda>tab l b. tab),
      wrapPlainText = (\<lambda>t. t),
      wrapRichText = (\<lambda>t. t),
      createObjectURL = (\<lambda>b. ''blob:'' @ map (\<lambda>n. char_of n) b) \<rparr>"

definition new_AppDocsManager :: "'fm \<Rightarrow> 'fm AppDocsManager" where
  "new_AppDocsManager fm = \<lparr> docs = Map.empty, thumbs' = Map.empty, fileManager = fm, calls = [] \<rparr>"


section \<open>Notions used in the statements\<close>

text \<open>
  \<open>downloadDoc\<close> answers from the cache when the descriptor is marked downloaded, no
  sink is given, and it has a local URL or the file manager still holds a blob.
\<close>

definition served_from_cache ::
  "'fm collaborators \<Rightarrow> MTDocument \<Rightarrow> file_entry option \<Rightarrow> 'fm \<Rightarrow> bool" where
  "served_from_cache C doc sink fm =
    (downloaded doc = Some True \<and> sink = None
       \<and> (truthy (url doc) \<or> getCachedFile C fm (getInputByID doc None) \<noteq> None))"

text \<open>
  The type one attribute assigns to a descriptor with the MIME type and thumbnails of
  \<open>d\<close>, if it assigns one; and the type the last assigning attribute of a list leaves,
  starting from \<open>t\<close>.
\<close>

fun type_set_by :: "MTDocument \<Rightarrow> attribute \<Rightarrow> string option" where
  "type_set_by d (DocumentAttributeAudio dur title performer voice) =
    Some (if voice then ''voice'' else ''audio'')"
| "type_set_by d (DocumentAttributeVideo dur vw vh round_message) =
    Some (if thumbs d \<noteq> None \<and> round_message then ''round'' else ''video'')"
| "type_set_by d (DocumentAttributeSticker alt stickerset) =
    (if mime_type d = Some ''image/webp'' then Some ''sticker'' else None)"
| "type_set_by d DocumentAttributeAnimated =
    (if (mime_type d = Some ''image/gif'' \<or> mime_type d = Some ''video/mp4'') \<and> thumbs d \<noteq> None
     then Some ''gif'' else None)"
| "type_set_by d (DocumentAttributeFilename fname) = None"
| "type_set_by d (DocumentAttributeImageSize iw ih) = None"
| "type_set_by d (DocumentAttributeOther c) = None"

fun last_type_set :: "MTDocument \<Rightarrow> attribute list \<Rightarrow> string option \<Rightarrow> string option" where
  "last_type_set d [] t = t"
| "last_type_set d (a # as) t =
    last_type_set d as (case type_set_by d a of None \<Rightarrow> t | Some x \<Rightarrow> Some x)"

text \<open>The state store keeps a slot only for a tag the holder is registered with.\<close>

definition slots_held :: "AppStateManager \<Rightarrow> bool" where
  "slots_held m = (\<forall>ptype holder. singlePeerMap m ptype = Some holder \<longrightarrow> ptype \<in> tags_of m holder)"


section \<open>Example objects\<close>

definition example_manager :: AppStateManager where
  "example_manager = new_AppStateManager (STATE_INIT 1000 ''0.4.0'')"

definition raw_document :: "string \<Rightarrow> MTDocument" where
  "raw_document i =
    \<lparr> ctor = ''document'', id' = i, access_hash = ''77'', file_reference = [1, 2], dc_id = 2,
      size' = 2048, mime_type = None, thumbs = None, thumb = None, attributes = [],
      file_name = None, duration = None, audioTitle = None, audioPerformer = None,
      type' = None, w = None, h = None, stickerEmojiRaw = None, stickerEmoji = None,
      stickerSetInput = None, sticker = None, animated = None, downloaded = None,
      url = None \<rparr>"

definition stored_42 :: MTDocument where
  "stored_42 = (raw_document ''42'')\<lparr> mime_type := Some ''image/jpeg'', file_name := Some [] \<rparr>"

definition example_docs :: "'fm \<Rightarrow> 'fm AppDocsManager" where
  "example_docs fm = (new_AppDocsManager fm)\<lparr> docs := [''42'' \<mapsto> stored_42] \<rparr>"

definition placeholder_thumb :: PhotoSize where
  "placeholder_thumb = \<lparr> size_type = ''i'', bytes = None \<rparr>"

definition rich_thumb :: PhotoSize where
  "rich_thumb = \<lparr> size_type = ''m'', bytes = Some [255, 216, 255] \<rparr>"

definition first_sighting :: MTDocument where
  "first_sighting = (raw_document ''42'')\<lparr> thumbs := Some [placeholder_thumb] \<rparr>"

definition second_sighting :: MTDocument where
  "second_sighting =
    (raw_document ''42'')\<lparr> thumbs := Some [rich_thumb],
                            attributes := [DocumentAttributeFilename ''photo.png''] \<rparr>"

definition audio_then_video :: MTDocument where
  "audio_then_video =
    (raw_document ''7'')\<lparr> attributes :=
      [DocumentAttributeAudio 10 None None False, DocumentAttributeVideo 10 320 240 False] \<rparr>"

definition video_then_audio :: MTDocument where
  "video_then_audio =
    (raw_document ''7'')\<lparr> attributes :=
      [DocumentAttributeVideo 10 320 240 False, DocumentAttributeAudio 10 None None False] \<rparr>"

definition white_background :: Background where
  "white_background =
    \<lparr> kind = Color, blur = False, highlightningColor = None, color = Some ''#ffffff'',
      slug = None \<rparr>"

definition legacy_settings :: Settings where
  "legacy_settings =
    (settings (STATE_INIT 1000 ''0.4.0''))\<lparr> themes := None, theme := None,
       background_deprecated := Some white_background, nightTheme := Some True \<rparr>"

definition legacy_state :: State where
  "legacy_state = (STATE_INIT 1000 ''0.4.0'')\<lparr> settings := legacy_settings \<rparr>"

definition migrated_state :: State where
  "migrated_state =
    legacy_state\<lparr> settings := legacy_settings\<lparr> themes := themes (settings (STATE_INIT 1000 ''0.4.0'')),
                                                theme := Some Night \<rparr> \<rparr>"

text \<open>\<open>STATE_INIT\<close> and the legacy state after the two migrations.\<close>

definition STATE_INIT_white :: State where
  "STATE_INIT_white =
    (STATE_INIT 1000 ''0.4.0'')\<lparr> settings := (settings (STATE_INIT 1000 ''0.4.0''))\<lparr> themes :=
      Some [ \<lparr> name = Day, background = white_background \<rparr>,
             \<lparr> name = Night,
               background = \<lparr> kind = Color, blur = False,
                 highlightningColor = Some ''hsla(0, 0%, 3.82353%, 0.4)'',
                 color = Some ''#0f0f0f'', slug = None \<rparr> \<rparr> ] \<rparr> \<rparr>"

definition legacy_state_night :: State where
  "legacy_state_night = legacy_state\<lparr> settings := legacy_settings\<lparr> theme := Some Night \<rparr> \<rparr>"

definition nothing_stored :: Stored where
  "nothing_stored =
    \<lparr> got_dialogs = None, got_allDialogsLoaded = None, got_chats = None, got_users = None,
      got_messages = None, got_contactsList = None, got_updates = None, got_filters = None,
      got_maxSeenMsgId = None, got_stateCreatedTime = None, got_recentEmoji = None,
      got_topPeers = None, got_recentSearch = None, got_version = None, got_authState = None,
      got_hiddenPinnedMessages = None, got_settings = None, got_keepSigned = None,
      got_drafts = None, got_user_auth = None \<rparr>"

definition old_session :: Stored where
  "old_session =
    nothing_stored\<lparr> got_dialogs := Some [11, 12],
                    got_chats := Some [-3 \<mapsto> Some 30, -4 \<mapsto> Some 40],
                    got_users := Some [5 \<mapsto> Some 50, 6 \<mapsto> Some 60],
                    got_contactsList := Some [5, 6],
                    got_maxSeenMsgId := Some 900,
                    got_stateCreatedTime := Some 500,
                    got_topPeers := Some [6],
                    got_recentSearch := Some [5, -3, 9] \<rparr>"

text \<open>
  Two ways \<open>validateInitObject\<close> may treat the settings: fill in the absent \<open>themes\<close>
  and \<open>theme\<close> from \<open>STATE_INIT\<close>, or refuse settings that lack one of them.
\<close>

definition filling :: "Settings \<Rightarrow> Settings \<Rightarrow> js_error + Settings" where
  "filling init cur =
    Inr (cur\<lparr> themes := (case themes cur of None \<Rightarrow> themes init | Some ts \<Rightarrow> Some ts),
              theme := (case theme cur of None \<Rightarrow> theme init | Some n \<Rightarrow> Some n) \<rparr>)"

definition refusing :: "Settings \<Rightarrow> Settings \<Rightarrow> js_error + Settings" where
  "refusing init cur =
    (if themes cur = None \<or> theme cur = None then Inl (Thrown ''validation'') else Inr cur)"

text \<open>The old session after a load with and without the refresh.\<close>

definition refreshed_session :: State where
  "refreshed_session =
    (STATE_INIT 1000 ''0.4.0'')\<lparr> chats := [-3 \<mapsto> Some 30],
                                  users := [5 \<mapsto> Some 50, 9 \<mapsto> None],
                                  recentSearch := [5, -3, 9] \<rparr>"

definition kept_session :: State where
  "kept_session =
    (STATE_INIT 1000 ''0.4.0'')\<lparr> dialogs := [11, 12],
                                  chats := [-3 \<mapsto> Some 30, -4 \<mapsto> Some 40],
                                  users := [5 \<mapsto> Some 50, 6 \<mapsto> Some 60],
                                  contactsList := [5, 6],
                                  maxSeenMsgId := 900,
                                  stateCreatedTime := 500,
                                  topPeers := [6],
                                  recentSearch := [5, -3, 9] \<rparr>"

text \<open>A way for promises to settle: the load is fulfilled, every other promise rejected.\<close>

fun others_fail :: "load_promise \<Rightarrow> loaded_value outcome" where
  "others_fail (Loaded k) = Fulfilled (Caught (Thrown ''quota''))"
| "others_fail (Dep n) = Rejected (Thrown ''dependency'')"


definition example_env :: "int \<Rightarrow> load_env" where
  "example_env t = \<lparr> STATE_VERSION = ''0.4.0'', validateInitObject = filling, time = t \<rparr>"

definition refusing_env :: "int \<Rightarrow> load_env" where
  "refusing_env t = \<lparr> STATE_VERSION = ''0.4.0'', validateInitObject = refusing, time = t \<rparr>"

definition legacy_stored :: Stored where
  "legacy_stored = nothing_stored\<lparr> got_settings := Some legacy_settings \<rparr>"



section \<open>Peer demand: theorems\<close>

lemma example_manager_eq:
  "example_manager =
    \<lparr> loaded = Some (Loaded 0), loadPromises = [Loaded 0],
      loadAllPromise = Some (LoadAll [Loaded 0]), state = None,
      neededPeers = Map.empty, singlePeerMap = Map.empty, dispatched = [],
      loads_started = Suc 0, STATE_INIT_now = STATE_INIT 1000 ''0.4.0'',
      rootScope_settings = None, broadcasts = [] \<rparr>"
  by (simp add: example_manager_def new_AppStateManager_def fields_init_def)

text \<open>
  Claim C5. A first \<open>requestPeer(peerId, type)\<close> for a tag the peer does not have
  registers the tag and dispatches one \<open>peerNeeded\<close>; a repeated call returns at once
  and changes nothing, so it dispatches nothing. A single-slot call for a new peer, when
  another peer \<open>holder\<close> holds the slot of the tag, registers the new peer and dispatches
  its \<open>peerNeeded\<close>, then removes the tag from the holder, drops the holder's entry and
  dispatches \<open>peerUnneeded\<close> for it when its tags are exhausted, and records the new
  peer as the slot holder last. The witness runs the calls of the claim, for the peers
  5 and 7 and the tag \<open>a\<close>, on a new manager.
\<close>

theorem requestPeer_once_and_single_slot:
  "(ptype \<notin> tags_of m peerId \<longrightarrow>
      requestPeer peerId ptype None m =
        Returns () (m\<lparr> neededPeers := (neededPeers m)(peerId \<mapsto> insert ptype (tags_of m peerId)),
                        dispatched := dispatched m @ [PeerNeeded peerId] \<rparr>)
      \<and> requestPeer peerId ptype limit
           (object_after (requestPeer peerId ptype None m)) =
          Returns () (object_after (requestPeer peerId ptype None m)))
   \<and> (ptype \<notin> tags_of m peerId \<and> singlePeerMap m ptype = Some holder \<and> holder \<noteq> 0
        \<and> holder \<noteq> peerId \<and> neededPeers m holder = Some held \<longrightarrow>
      requestPeer peerId ptype (Some n) m =
        Returns ()
          (m\<lparr> neededPeers :=
                 (if held - {ptype} = {}
                  then ((neededPeers m)(peerId \<mapsto> insert ptype (tags_of m peerId)))(holder := None)
                  else (neededPeers m)(peerId \<mapsto> insert ptype (tags_of m peerId),
                                       holder \<mapsto> held - {ptype})),
               singlePeerMap := (singlePeerMap m)(ptype \<mapsto> peerId),
               dispatched := dispatched m @ PeerNeeded peerId #
                 (if held - {ptype} = {} then [PeerUnneeded holder] else []) \<rparr>))"
proof (intro conjI impI)
  assume a: "ptype \<notin> tags_of m peerId"
  show "requestPeer peerId ptype None m =
        Returns () (m\<lparr> neededPeers := (neededPeers m)(peerId \<mapsto> insert ptype (tags_of m peerId)),
                        dispatched := dispatched m @ [PeerNeeded peerId] \<rparr>)"
    using a by (auto simp: requestPeer_def tags_of_def Let_def split: option.splits)
  then show "requestPeer peerId ptype limit
           (object_after (requestPeer peerId ptype None m)) =
          Returns () (object_after (requestPeer peerId ptype None m))"
    by (simp add: object_after_def requestPeer_def)
next
  assume a: "ptype \<notin> tags_of m peerId \<and> singlePeerMap m ptype = Some holder \<and> holder \<noteq> 0
        \<and> holder \<noteq> peerId \<and> neededPeers m holder = Some held"
  then show "requestPeer peerId ptype (Some n) m =
        Returns ()
          (m\<lparr> neededPeers :=
                 (if held - {ptype} = {}
                  then ((neededPeers m)(peerId \<mapsto> insert ptype (tags_of m peerId)))(holder := None)
                  else (neededPeers m)(peerId \<mapsto> insert ptype (tags_of m peerId),
                                       holder \<mapsto> held - {ptype})),
               singlePeerMap := (singlePeerMap m)(ptype \<mapsto> peerId),
               dispatched := dispatched m @ PeerNeeded peerId #
                 (if held - {ptype} = {} then [PeerUnneeded holder] else []) \<rparr>)"
    by (auto simp: requestPeer_def keepPeerSingle_def tags_of_def Let_def split: option.splits)
qed

lemma single_slot_first_call:
  "requestPeer 5 ''a'' (Some 1) example_manager =
   Returns () (example_manager\<lparr> neededPeers := [5 \<mapsto> {''a''}], singlePeerMap := [''a'' \<mapsto> 5],
       dispatched := [PeerNeeded 5] \<rparr>)"
  by (simp add: example_manager_eq requestPeer_def keepPeerSingle_def Let_def)

theorem requestPeer_once_and_single_slot_witness:
  "dispatched (object_after (and_then (requestPeer 5 ''a'' None example_manager)
                  (requestPeer 5 ''a'' None))) = [PeerNeeded 5]
   \<and> and_then (requestPeer 5 ''a'' (Some 1) example_manager) (requestPeer 7 ''a'' (Some 1)) =
       Returns () (example_manager\<lparr> neededPeers := [7 \<mapsto> {''a''}],
                     singlePeerMap := [''a'' \<mapsto> 7],
                     dispatched := [PeerNeeded 5, PeerNeeded 7, PeerUnneeded 5] \<rparr>)
   \<and> isPeerNeeded 7 (object_after (and_then (requestPeer 5 ''a'' (Some 1) example_manager)
                        (requestPeer 7 ''a'' (Some 1))))
   \<and> \<not> isPeerNeeded 5 (object_after (and_then (requestPeer 5 ''a'' (Some 1) example_manager)
                        (requestPeer 7 ''a'' (Some 1))))"
proof -
  let ?m1 = "example_manager\<lparr> neededPeers := [5 \<mapsto> {''a''}], singlePeerMap := [''a'' \<mapsto> 5],
       dispatched := [PeerNeeded 5] \<rparr>"
  have once: "''a'' \<notin> tags_of example_manager 5"
    by (simp add: tags_of_def example_manager_eq)
  have slot: "''a'' \<notin> tags_of ?m1 7 \<and> singlePeerMap ?m1 ''a'' = Some 5 \<and> (5::int) \<noteq> 0
        \<and> (5::int) \<noteq> 7 \<and> neededPeers ?m1 5 = Some {''a''}"
    by (simp add: tags_of_def example_manager_eq)
  from requestPeer_once_and_single_slot [of "''a''" example_manager 5 None 5 "{}" 1] once
  have a: "dispatched (object_after (and_then (requestPeer 5 ''a'' None example_manager)
                  (requestPeer 5 ''a'' None))) = [PeerNeeded 5]"
    by (simp add: and_then_def object_after_def example_manager_eq tags_of_def requestPeer_def)
  from requestPeer_once_and_single_slot [of "''a''" ?m1 7 None 5 "{''a''}" 1] slot
  have b: "requestPeer 7 ''a'' (Some 1) ?m1 =
       Returns () (example_manager\<lparr> neededPeers := [7 \<mapsto> {''a''}],
                     singlePeerMap := [''a'' \<mapsto> 7],
                     dispatched := [PeerNeeded 5, PeerNeeded 7, PeerUnneeded 5] \<rparr>)"
    by (simp add: tags_of_def example_manager_eq fun_upd_twist)
  show ?thesis using a b single_slot_first_call
    by (simp add: and_then_def object_after_def isPeerNeeded_def)
qed

text \<open>
  Claim C4. The claim has the eviction of a slot holder without an entry in
  \<open>neededPeers\<close> be a no-op after which the new peer is recorded. The code reads
  \<open>this.neededPeers.get(existsPeerId)\<close> and calls \<open>delete\<close> on the result without
  looking at it. On a new manager, \<open>keepPeerSingle(5, 'a')\<close> records peer 5 as the holder
  of the slot while it has no entry; \<open>requestPeer(7, 'a', 1)\<close> then registers peer 7,
  dispatches its \<open>peerNeeded\<close> and throws a \<open>TypeError\<close>, and the slot still names
  peer 5.
\<close>

theorem keepPeerSingle_absent_holder_throws:
  "and_then (keepPeerSingle 5 ''a'' example_manager) (requestPeer 7 ''a'' (Some 1)) =
     Throws TypeError
       (example_manager\<lparr> neededPeers := [7 \<mapsto> {''a''}], singlePeerMap := [''a'' \<mapsto> 5],
                         dispatched := [PeerNeeded 7] \<rparr>)"
  by (simp add: and_then_def requestPeer_def keepPeerSingle_def example_manager_eq Let_def)

text \<open>
  \<open>keepPeerSingle\<close> throws exactly when the slot names another peer, not 0, that has
  no entry. Calls of \<open>requestPeer\<close> alone never lead there: they keep every slot holder
  registered with its tag, and under that invariant they return.
\<close>

lemma keepPeerSingle_throws_iff:
  "(\<exists>m'. keepPeerSingle peerId ptype m = Throws TypeError m') \<longleftrightarrow>
     (\<exists>holder. singlePeerMap m ptype = Some holder \<and> holder \<noteq> 0 \<and> holder \<noteq> peerId
        \<and> neededPeers m holder = None)"
  by (auto simp: keepPeerSingle_def Let_def split: option.splits if_splits)

lemma keepPeerSingle_keeps_slots_held:
  assumes h: "slots_held m" and reg: "ptype \<in> tags_of m peerId"
  shows "\<exists>m'. keepPeerSingle peerId ptype m = Returns () m' \<and> slots_held m'"
proof (cases "\<exists>holder. singlePeerMap m ptype = Some holder \<and> holder \<noteq> 0 \<and> holder \<noteq> peerId")
  case False
  then have "keepPeerSingle peerId ptype m =
      Returns () (m\<lparr> singlePeerMap := (singlePeerMap m)(ptype \<mapsto> peerId) \<rparr>)"
    by (auto simp: keepPeerSingle_def Let_def)
  moreover have "slots_held (m\<lparr> singlePeerMap := (singlePeerMap m)(ptype \<mapsto> peerId) \<rparr>)"
    using h reg by (auto simp: slots_held_def tags_of_def)
  ultimately show ?thesis by simp
next
  case True
  then obtain holder where s: "singlePeerMap m ptype = Some holder" "holder \<noteq> 0" "holder \<noteq> peerId"
    by blast
  from h s(1) have "ptype \<in> tags_of m holder" by (simp add: slots_held_def)
  then obtain held where n: "neededPeers m holder = Some held" "ptype \<in> held"
    by (auto simp: tags_of_def split: option.splits)
  let ?m2 = "m\<lparr> neededPeers :=
                 (if held - {ptype} = {} then (neededPeers m)(holder := None)
                  else (neededPeers m)(holder \<mapsto> held - {ptype})),
               singlePeerMap := (singlePeerMap m)(ptype \<mapsto> peerId),
               dispatched := dispatched m @
                 (if held - {ptype} = {} then [PeerUnneeded holder] else []) \<rparr>"
  have k: "keepPeerSingle peerId ptype m = Returns () ?m2"
    using s n by (simp add: keepPeerSingle_def Let_def)
  have "slots_held ?m2"
    unfolding slots_held_def
  proof (intro allI impI)
    fix t q
    assume a: "singlePeerMap ?m2 t = Some q"
    show "t \<in> tags_of ?m2 q"
    proof (cases "t = ptype")
      case True
      with a have "q = peerId" by simp
      with reg s(3) True show ?thesis by (simp add: tags_of_def)
    next
      case False
      with a have "singlePeerMap m t = Some q" by simp
      with h have "t \<in> tags_of m q" by (simp add: slots_held_def)
      with False n show ?thesis by (auto simp: tags_of_def split: option.splits)
    qed
  qed
  with k show ?thesis by simp
qed

lemma requestPeer_keeps_slots_held:
  assumes "slots_held m"
  shows "\<exists>m'. requestPeer peerId ptype limit m = Returns () m' \<and> slots_held m'"
proof (cases "ptype \<in> tags_of m peerId")
  case True
  then show ?thesis using assms
    by (auto simp: requestPeer_def tags_of_def split: option.splits)
next
  case False
  let ?m1 = "m\<lparr> neededPeers := (neededPeers m)(peerId \<mapsto> insert ptype (tags_of m peerId)),
                        dispatched := dispatched m @ [PeerNeeded peerId] \<rparr>"
  have r: "requestPeer peerId ptype limit m =
      (if limit \<noteq> None then keepPeerSingle peerId ptype ?m1 else Returns () ?m1)"
    using False by (auto simp: requestPeer_def tags_of_def Let_def split: option.splits)
  have h1: "slots_held ?m1"
    using assms by (auto simp: slots_held_def tags_of_def split: option.splits)
  have reg: "ptype \<in> tags_of ?m1 peerId" by (simp add: tags_of_def)
  show ?thesis
    using r h1 keepPeerSingle_keeps_slots_held [OF h1 reg] by (cases limit) auto
qed


section \<open>The document registry: theorems about \<open>saveDoc\<close>\<close>

lemma attribute_step_type:
  "type' (fst (attribute_step C a d)) = (case type_set_by d a of None \<Rightarrow> type' d | Some x \<Rightarrow> Some x)"
  by (cases a) (auto simp: Let_def split: option.splits input_sticker_set.splits)

lemma attribute_step_frame:
  "mime_type (fst (attribute_step C a d)) = mime_type d
   \<and> thumbs (fst (attribute_step C a d)) = thumbs d
   \<and> id' (fst (attribute_step C a d)) = id' d
   \<and> ctor (fst (attribute_step C a d)) = ctor d
   \<and> thumb (fst (attribute_step C a d)) = thumb d"
  by (cases a) (auto simp: Let_def split: option.splits input_sticker_set.splits)

lemma type_set_by_cong:
  "mime_type d = mime_type e \<Longrightarrow> thumbs d = thumbs e \<Longrightarrow> type_set_by d a = type_set_by e a"
  by (cases a) auto

lemma last_type_set_cong:
  "mime_type d = mime_type e \<Longrightarrow> thumbs d = thumbs e \<Longrightarrow> last_type_set d as t = last_type_set e as t"
  by (induction as arbitrary: t) (auto simp: type_set_by_cong [of d e])

lemma attributes_forEach_frame:
  "mime_type (fst (attributes_forEach C as d)) = mime_type d
   \<and> thumbs (fst (attributes_forEach C as d)) = thumbs d
   \<and> id' (fst (attributes_forEach C as d)) = id' d
   \<and> ctor (fst (attributes_forEach C as d)) = ctor d
   \<and> thumb (fst (attributes_forEach C as d)) = thumb d"
proof (induction as arbitrary: d)
  case Nil
  show ?case by simp
next
  case (Cons a as)
  show ?case
    using Cons.IH [of "fst (attribute_step C a d)"] attribute_step_frame [of C a d]
    by (simp add: split_beta Let_def)
qed

lemma attributes_forEach_type:
  "type' (fst (attributes_forEach C as d)) = last_type_set d as (type' d)"
proof (induction as arbitrary: d)
  case Nil
  show ?case by simp
next
  case (Cons a as)
  have "last_type_set (fst (attribute_step C a d)) as (type' (fst (attribute_step C a d)))
      = last_type_set d as (type' (fst (attribute_step C a d)))"
    using attribute_step_frame [of C a d] by (intro last_type_set_cong) auto
  then show ?case
    using Cons.IH [of "fst (attribute_step C a d)"]
    by (simp add: split_beta Let_def attribute_step_type)
qed

lemma legacy_thumb_step_frame:
  "mime_type (fst (legacy_thumb_step C a fm)) = mime_type a
   \<and> thumbs (fst (legacy_thumb_step C a fm)) = thumbs a
   \<and> attributes (fst (legacy_thumb_step C a fm)) = attributes a
   \<and> type' (fst (legacy_thumb_step C a fm)) = type' a"
  by (cases "thumb a"; cases "the (thumb a)") (simp_all add: legacy_thumb_step_def)

lemma defaults_step_type:
  "type' (defaults_step d) =
    (if mime_type (defaults_step d) = Some ''application/x-tgsticker''
        \<and> file_name (defaults_step d) = Some ''AnimatedSticker.tgs''
     then Some ''sticker'' else type' d)"
  by (auto simp: defaults_step_def Let_def)

lemma first_insert_type:
  "type' (fst (first_insert C a fm)) =
    (if mime_type (fst (first_insert C a fm)) = Some ''application/x-tgsticker''
        \<and> file_name (fst (first_insert C a fm)) = Some ''AnimatedSticker.tgs''
     then Some ''sticker'' else last_type_set a (attributes a) (type' a))"
proof -
  let ?d2 = "fst (legacy_thumb_step C a fm)"
  let ?d4 = "(fst (attributes_forEach C (attributes ?d2) ?d2))
               \<lparr> attributes := snd (attributes_forEach C (attributes ?d2) ?d2) \<rparr>"
  have f: "fst (first_insert C a fm) = defaults_step ?d4"
    by (simp add: first_insert_def split_beta Let_def)
  have "type' ?d4 = last_type_set ?d2 (attributes ?d2) (type' ?d2)"
    by (simp add: attributes_forEach_type)
  also have "\<dots> = last_type_set a (attributes a) (type' a)"
    using legacy_thumb_step_frame [of C a fm]
    by (simp add: last_type_set_cong [of ?d2 a])
  finally show ?thesis
    unfolding f defaults_step_type by simp
qed

text \<open>
  Claim C3, as amended. On the first insert, \<open>saveDoc\<close> goes through the attributes in
  list order and every attribute that assigns a type overwrites the one assigned before:
  the stored type is the one the last assigning attribute leaves (\<open>last_type_set\<close>), or
  \<open>sticker\<close> for an animated sticker file. There is no precedence among the kinds of
  attribute, and an image-size attribute assigns no type. On a later save of the same
  identity without a context the stored type stays as it is, whether the call returns
  or throws.
\<close>

theorem saveDoc_type_is_last_assigned:
  "(docs m (id' apiDoc) = None \<longrightarrow>
      saveDoc C apiDoc context m =
        Returns (fst (first_insert C (assign apiDoc context) (fileManager m)))
          (m\<lparr> docs := (docs m)(id' (assign apiDoc context) \<mapsto>
                           fst (first_insert C (assign apiDoc context) (fileManager m))),
               fileManager := fst (snd (first_insert C (assign apiDoc context) (fileManager m))),
               calls := calls m @ snd (snd (first_insert C (assign apiDoc context) (fileManager m))) \<rparr>)
      \<and> type' (fst (first_insert C (assign apiDoc context) (fileManager m))) =
          (if mime_type (fst (first_insert C (assign apiDoc context) (fileManager m)))
                = Some ''application/x-tgsticker''
              \<and> file_name (fst (first_insert C (assign apiDoc context) (fileManager m)))
                = Some ''AnimatedSticker.tgs''
           then Some ''sticker''
           else last_type_set (assign apiDoc context) (attributes (assign apiDoc context))
                  (type' (assign apiDoc context))))
   \<and> (docs m (id' apiDoc) = Some stored \<longrightarrow>
        (case saveDoc C apiDoc None m of
           Returns d m' \<Rightarrow> type' d = type' stored \<and> docs m' (id' apiDoc) = Some d
         | Throws e m' \<Rightarrow> m' = m))"
proof (intro conjI impI)
  assume "docs m (id' apiDoc) = None"
  then show "saveDoc C apiDoc context m =
        Returns (fst (first_insert C (assign apiDoc context) (fileManager m)))
          (m\<lparr> docs := (docs m)(id' (assign apiDoc context) \<mapsto>
                           fst (first_insert C (assign apiDoc context) (fileManager m))),
               fileManager := fst (snd (first_insert C (assign apiDoc context) (fileManager m))),
               calls := calls m @ snd (snd (first_insert C (assign apiDoc context) (fileManager m))) \<rparr>)"
    by (simp add: saveDoc_def Let_def split_beta)
next
  show "type' (fst (first_insert C (assign apiDoc context) (fileManager m))) =
          (if mime_type (fst (first_insert C (assign apiDoc context) (fileManager m)))
                = Some ''application/x-tgsticker''
              \<and> file_name (fst (first_insert C (assign apiDoc context) (fileManager m)))
                = Some ''AnimatedSticker.tgs''
           then Some ''sticker''
           else last_type_set (assign apiDoc context) (attributes (assign apiDoc context))
                  (type' (assign apiDoc context)))"
    by (rule first_insert_type)
next
  assume "docs m (id' apiDoc) = Some stored"
  then show "case saveDoc C apiDoc None m of
           Returns d m' \<Rightarrow> type' d = type' stored \<and> docs m' (id' apiDoc) = Some d
         | Throws e m' \<Rightarrow> m' = m"
    by (auto simp: saveDoc_def merge_thumbs_def assign_def Let_def
        split: option.splits list.splits sum.splits if_splits)
qed

lemma attribute_step_file_name:
  "(\<forall>fname. a \<noteq> DocumentAttributeFilename fname) \<Longrightarrow>
     file_name (fst (attribute_step C a d)) = file_name d"
  by (cases a) (auto simp: Let_def split: option.splits input_sticker_set.splits)

lemma attributes_forEach_file_name:
  "(\<forall>fname. DocumentAttributeFilename fname \<notin> set as) \<Longrightarrow>
     file_name (fst (attributes_forEach C as d)) = file_name d"
proof (induction as arbitrary: d)
  case Nil
  show ?case by simp
next
  case (Cons a as)
  then have "file_name (fst (attribute_step C a d)) = file_name d"
    by (intro attribute_step_file_name) auto
  then show ?case
    using Cons.IH [of "fst (attribute_step C a d)"] Cons.prems
    by (simp add: split_beta Let_def)
qed

lemma first_insert_no_file_name:
  assumes "\<forall>fname. DocumentAttributeFilename fname \<notin> set (attributes a)" and "file_name a = None"
  shows "file_name (fst (first_insert C a fm)) = Some []"
proof -
  let ?d2 = "fst (legacy_thumb_step C a fm)"
  have d2: "attributes ?d2 = attributes a" "file_name ?d2 = None"
    using assms(2)
    by (cases "thumb a"; cases "the (thumb a)"; simp add: legacy_thumb_step_def)+
  have "file_name (fst (attributes_forEach C (attributes ?d2) ?d2)) = None"
    using attributes_forEach_file_name [of "attributes ?d2" C ?d2] assms(1) d2 by simp
  then show ?thesis
    by (simp add: first_insert_def split_beta Let_def defaults_step_def truthy_def)
qed

text \<open>
  Claim C2, as amended. A save for an identity the registry has keeps the stored
  descriptor: when its first thumbnail has no bytes and the first thumbnail of the
  incoming descriptor has, that thumbnail is put in front of the stored list, and nothing
  else changes but for the overlay of a context. The attributes of the incoming
  descriptor are not read, so the filename stays as the first save left it; it is the
  empty string when the first save carried neither a filename nor a filename attribute.
\<close>

theorem saveDoc_merges_thumbs_only:
  "(docs m (id' apiDoc) = Some d \<and> thumbs d = Some (lo # los) \<and> bytes lo = None
      \<and> thumbs apiDoc = Some (hi # his) \<and> bytes hi \<noteq> None \<longrightarrow>
    saveDoc C apiDoc context m =
      Returns (assign (d\<lparr> thumbs := Some (hi # lo # los) \<rparr>) context)
        (m\<lparr> docs := (docs m)(id' apiDoc \<mapsto> assign (d\<lparr> thumbs := Some (hi # lo # los) \<rparr>) context) \<rparr>)
    \<and> file_name (d\<lparr> thumbs := Some (hi # lo # los) \<rparr>) = file_name d)
   \<and> (docs m (id' apiDoc) = None \<and> file_name apiDoc = None
        \<and> (\<forall>fname. DocumentAttributeFilename fname \<notin> set (attributes apiDoc)) \<longrightarrow>
      (case saveDoc C apiDoc None m of
         Returns d1 m1 \<Rightarrow> docs m1 (id' apiDoc) = Some d1 \<and> file_name d1 = Some []
                            \<and> thumbs d1 = thumbs apiDoc
       | Throws e m1 \<Rightarrow> False))"
proof (intro conjI impI)
  assume "docs m (id' apiDoc) = Some d \<and> thumbs d = Some (lo # los) \<and> bytes lo = None
      \<and> thumbs apiDoc = Some (hi # his) \<and> bytes hi \<noteq> None"
  then show "saveDoc C apiDoc context m =
      Returns (assign (d\<lparr> thumbs := Some (hi # lo # los) \<rparr>) context)
        (m\<lparr> docs := (docs m)(id' apiDoc \<mapsto> assign (d\<lparr> thumbs := Some (hi # lo # los) \<rparr>) context) \<rparr>)"
    by (auto simp: saveDoc_def merge_thumbs_def Let_def)
next
  show "file_name (d\<lparr> thumbs := Some (hi # lo # los) \<rparr>) = file_name d" by simp
next
  assume a: "docs m (id' apiDoc) = None \<and> file_name apiDoc = None
        \<and> (\<forall>fname. DocumentAttributeFilename fname \<notin> set (attributes apiDoc))"
  have t: "thumbs (fst (first_insert C apiDoc (fileManager m))) = thumbs apiDoc"
    using attributes_forEach_frame [of C "attributes (fst (legacy_thumb_step C apiDoc (fileManager m)))"
        "fst (legacy_thumb_step C apiDoc (fileManager m))"]
      legacy_thumb_step_frame [of C apiDoc "fileManager m"]
    by (simp add: first_insert_def split_beta Let_def defaults_step_def)
  show "case saveDoc C apiDoc None m of
         Returns d1 m1 \<Rightarrow> docs m1 (id' apiDoc) = Some d1 \<and> file_name d1 = Some []
                            \<and> thumbs d1 = thumbs apiDoc
       | Throws e m1 \<Rightarrow> False"
    using a t first_insert_no_file_name [of apiDoc C "fileManager m"]
    by (simp add: saveDoc_def assign_def Let_def split_beta)
qed

lemma first_save:
  "saveDoc fresh_collaborators first_sighting None (new_AppDocsManager 0) =
    Returns (first_sighting\<lparr> mime_type := Some ''application/octet-stream'', file_name := Some [] \<rparr>)
      ((new_AppDocsManager 0)\<lparr> docs := [''42'' \<mapsto>
         first_sighting\<lparr> mime_type := Some ''application/octet-stream'', file_name := Some [] \<rparr>] \<rparr>)"
  by (simp add: saveDoc_def first_insert_def legacy_thumb_step_def defaults_step_def
      first_sighting_def raw_document_def assign_def
      new_AppDocsManager_def truthy_def mime_of_type_def Let_def)

lemma second_save:
  "saveDoc fresh_collaborators second_sighting None
      ((new_AppDocsManager 0)\<lparr> docs := [''42'' \<mapsto>
         first_sighting\<lparr> mime_type := Some ''application/octet-stream'', file_name := Some [] \<rparr>] \<rparr>) =
    Returns (first_sighting\<lparr> mime_type := Some ''application/octet-stream'', file_name := Some [],
                             thumbs := Some [rich_thumb, placeholder_thumb] \<rparr>)
      ((new_AppDocsManager 0)\<lparr> docs := [''42'' \<mapsto>
         first_sighting\<lparr> mime_type := Some ''application/octet-stream'', file_name := Some [],
                             thumbs := Some [rich_thumb, placeholder_thumb] \<rparr>] \<rparr>)"
  by (simp add: saveDoc_def merge_thumbs_def first_sighting_def second_sighting_def
      raw_document_def placeholder_thumb_def rich_thumb_def assign_def new_AppDocsManager_def
      Let_def)

text \<open>
  Claim C2 as stated fails on the filename: after the two saves of the claim the stored
  filename is empty, not the one of the second save's attribute.
\<close>

theorem saveDoc_filename_counterexample:
  "map_option file_name
     (docs (object_after (and_then (saveDoc fresh_collaborators first_sighting None (new_AppDocsManager 0))
                            (saveDoc fresh_collaborators second_sighting None))) ''42'')
     = Some (Some [])
   \<and> map_option file_name
     (docs (object_after (and_then (saveDoc fresh_collaborators first_sighting None (new_AppDocsManager 0))
                            (saveDoc fresh_collaborators second_sighting None))) ''42'')
     \<noteq> Some (Some (wrapPlainText fresh_collaborators ''photo.png''))"
proof -
  have r: "and_then (saveDoc fresh_collaborators first_sighting None (new_AppDocsManager 0))
             (saveDoc fresh_collaborators second_sighting None) =
    Returns (first_sighting\<lparr> mime_type := Some ''application/octet-stream'', file_name := Some [],
                             thumbs := Some [rich_thumb, placeholder_thumb] \<rparr>)
      ((new_AppDocsManager 0)\<lparr> docs := [''42'' \<mapsto>
         first_sighting\<lparr> mime_type := Some ''application/octet-stream'', file_name := Some [],
                             thumbs := Some [rich_thumb, placeholder_thumb] \<rparr>] \<rparr>)"
    by (simp add: and_then_def first_save second_save)
  show ?thesis
    unfolding r by (simp add: object_after_def fresh_collaborators_def)
qed


text \<open>The two saves of claim C2, run on a new manager.\<close>

theorem saveDoc_merges_thumbs_only_witness:
  "and_then (saveDoc fresh_collaborators first_sighting None (new_AppDocsManager 0))
             (saveDoc fresh_collaborators second_sighting None) =
    Returns (first_sighting\<lparr> mime_type := Some ''application/octet-stream'', file_name := Some [],
                             thumbs := Some [rich_thumb, placeholder_thumb] \<rparr>)
      ((new_AppDocsManager 0)\<lparr> docs := [''42'' \<mapsto>
         first_sighting\<lparr> mime_type := Some ''application/octet-stream'', file_name := Some [],
                             thumbs := Some [rich_thumb, placeholder_thumb] \<rparr>] \<rparr>)"
proof -
  let ?d = "first_sighting\<lparr> mime_type := Some ''application/octet-stream'', file_name := Some [] \<rparr>"
  let ?m = "(new_AppDocsManager (0::nat))\<lparr> docs := [''42'' \<mapsto> ?d] \<rparr>"
  have h: "docs ?m (id' second_sighting) = Some ?d \<and> thumbs ?d = Some (placeholder_thumb # [])
      \<and> bytes placeholder_thumb = None
      \<and> thumbs second_sighting = Some (rich_thumb # []) \<and> bytes rich_thumb \<noteq> None"
    by (simp add: first_sighting_def second_sighting_def raw_document_def placeholder_thumb_def
        rich_thumb_def)
  have "saveDoc fresh_collaborators second_sighting None ?m =
      Returns (?d\<lparr> thumbs := Some [rich_thumb, placeholder_thumb] \<rparr>)
        (?m\<lparr> docs := (docs ?m)(id' second_sighting \<mapsto> ?d\<lparr> thumbs := Some [rich_thumb, placeholder_thumb] \<rparr>) \<rparr>)"
    using saveDoc_merges_thumbs_only [of ?m second_sighting ?d placeholder_thumb "[]" rich_thumb "[]"
        fresh_collaborators None] h
    by (simp add: assign_def)
  then show ?thesis
    by (simp add: and_then_def first_save second_sighting_def raw_document_def)
qed

lemma audio_then_video_saved:
  "saveDoc fresh_collaborators audio_then_video None (new_AppDocsManager 0) =
    Returns (audio_then_video\<lparr> mime_type := Some ''video/mp4'', file_name := Some [],
               duration := Some 10, audioTitle := None, audioPerformer := None,
               type' := Some ''video'', w := Some 320, h := Some 240 \<rparr>)
      ((new_AppDocsManager 0)\<lparr> docs := [''7'' \<mapsto>
          audio_then_video\<lparr> mime_type := Some ''video/mp4'', file_name := Some [],
               duration := Some 10, audioTitle := None, audioPerformer := None,
               type' := Some ''video'', w := Some 320, h := Some 240 \<rparr>] \<rparr>)"
  by (simp add: saveDoc_def first_insert_def legacy_thumb_step_def defaults_step_def
      audio_then_video_def raw_document_def assign_def
      new_AppDocsManager_def truthy_def mime_of_type_def Let_def)

lemma video_then_audio_saved:
  "saveDoc fresh_collaborators video_then_audio None (new_AppDocsManager 0) =
    Returns (video_then_audio\<lparr> mime_type := Some ''audio/mpeg'', file_name := Some [],
               duration := Some 10, audioTitle := None, audioPerformer := None,
               type' := Some ''audio'', w := Some 320, h := Some 240 \<rparr>)
      ((new_AppDocsManager 0)\<lparr> docs := [''7'' \<mapsto>
          video_then_audio\<lparr> mime_type := Some ''audio/mpeg'', file_name := Some [],
               duration := Some 10, audioTitle := None, audioPerformer := None,
               type' := Some ''audio'', w := Some 320, h := Some 240 \<rparr>] \<rparr>)"
  by (simp add: saveDoc_def first_insert_def legacy_thumb_step_def defaults_step_def
      video_then_audio_def raw_document_def assign_def
      new_AppDocsManager_def truthy_def mime_of_type_def Let_def)

text \<open>
  Claim C3 as stated fails: the same two attributes in the two orders give two types,
  and with the audio attribute first the type is \<open>video\<close>.
\<close>

theorem saveDoc_type_order_counterexample:
  "attributes video_then_audio = rev (attributes audio_then_video)
   \<and> map_option type'
       (docs (object_after (saveDoc fresh_collaborators audio_then_video None (new_AppDocsManager 0))) ''7'')
       = Some (Some ''video'')
   \<and> map_option type'
       (docs (object_after (saveDoc fresh_collaborators video_then_audio None (new_AppDocsManager 0))) ''7'')
       = Some (Some ''audio'')"
  unfolding audio_then_video_saved video_then_audio_saved
  by (simp add: object_after_def audio_then_video_def video_then_audio_def)

text \<open>
  The first save of a descriptor with an audio and then a video attribute, and a second
  save of the same identity with the attributes in the other order.
\<close>

theorem saveDoc_type_is_last_assigned_witness:
  "type' (fst (first_insert fresh_collaborators audio_then_video 0)) = Some ''video''
   \<and> map_option type'
       (docs (object_after (and_then (saveDoc fresh_collaborators audio_then_video None (new_AppDocsManager 0))
           (saveDoc fresh_collaborators video_then_audio None))) ''7'') = Some (Some ''video'')"
proof -
  let ?d = "audio_then_video\<lparr> mime_type := Some ''video/mp4'', file_name := Some [],
               duration := Some 10, audioTitle := None, audioPerformer := None,
               type' := Some ''video'', w := Some 320, h := Some 240 \<rparr>"
  let ?m = "(new_AppDocsManager (0::nat))\<lparr> docs := [''7'' \<mapsto> ?d] \<rparr>"
  have fresh: "docs (new_AppDocsManager (0::nat)) (id' audio_then_video) = None"
    by (simp add: new_AppDocsManager_def)
  have known: "docs ?m (id' video_then_audio) = Some ?d"
    by (simp add: video_then_audio_def raw_document_def)
  have t: "last_type_set audio_then_video (attributes audio_then_video) (type' audio_then_video)
      = Some ''video''"
    by (simp add: audio_then_video_def raw_document_def)
  have "fst (first_insert fresh_collaborators audio_then_video 0) = ?d"
    by (simp add: first_insert_def legacy_thumb_step_def defaults_step_def
      audio_then_video_def raw_document_def truthy_def mime_of_type_def Let_def)
  then have mm: "mime_type (fst (first_insert fresh_collaborators audio_then_video 0)) = Some ''video/mp4''"
    by simp
  from saveDoc_type_is_last_assigned [of "new_AppDocsManager (0::nat)" audio_then_video
      fresh_collaborators None ?d] fresh t mm
  have a: "type' (fst (first_insert fresh_collaborators audio_then_video 0)) = Some ''video''"
    by (simp add: assign_def new_AppDocsManager_def)
  from saveDoc_type_is_last_assigned [of ?m video_then_audio fresh_collaborators None ?d] known
  have b: "case saveDoc fresh_collaborators video_then_audio None ?m of
           Returns d m' \<Rightarrow> type' d = type' ?d \<and> docs m' (id' video_then_audio) = Some d
         | Throws e m' \<Rightarrow> m' = ?m"
    by simp
  have c: "id' video_then_audio = ''7''" by (simp add: video_then_audio_def raw_document_def)
  show ?thesis
    using a b c
    by (auto simp: and_then_def object_after_def audio_then_video_saved split: completion.splits)
qed


section \<open>The resource cache: theorems about \<open>downloadDoc\<close> and \<open>downloadDocThumb\<close>\<close>

text \<open>
  Claim C1, as amended. For a descriptor that is not empty and is not answered from the
  cache, every call of \<open>downloadDoc\<close> calls \<open>apiFileManager.downloadFile\<close> once, with
  arguments that depend on the descriptor and the sink only, and returns the promise
  that call returned. Two calls in a row, the first still outstanding, therefore make
  two calls of the file manager with the same arguments; the manager has no table of
  pending fetches of its own, and the two callers hold the same promise exactly when the
  file manager hands out the same one twice.
\<close>

theorem downloadDoc_calls_file_manager_each_time:
  "getDoc docID m = Some doc \<and> ctor doc \<noteq> ''documentEmpty''
     \<and> \<not> served_from_cache C doc sink (fileManager m)
     \<and> \<not> served_from_cache C doc sink
           (snd (downloadFile C (fileManager m) (dc_id doc) (getInputByID doc None) (size' doc)
                   (download_options_of doc sink))) \<longrightarrow>
   (let call = DownloadFile (dc_id doc) (getInputByID doc None) (size' doc)
                 (download_options_of doc sink);
        r1 = downloadFile C (fileManager m) (dc_id doc) (getInputByID doc None) (size' doc)
               (download_options_of doc sink);
        m1 = m\<lparr> fileManager := snd r1, calls := calls m @ [call] \<rparr>;
        r2 = downloadFile C (snd r1) (dc_id doc) (getInputByID doc None) (size' doc)
               (download_options_of doc sink)
    in downloadDoc C docID sink m = Returns (Transfer (fst r1)) m1
       \<and> downloadDoc C docID sink m1 =
           Returns (Transfer (fst r2)) (m\<lparr> fileManager := snd r2, calls := calls m @ [call, call] \<rparr>))"
  by (cases docID)
     (auto simp: downloadDoc_def getDoc_def served_from_cache_def Let_def split_beta)

lemma first_download:
  "downloadDoc sharing_collaborators (DocID ''42'') None (example_docs []) =
     Returns (Transfer 0)
       ((example_docs [])\<lparr> fileManager := [(getInputByID stored_42 None, 0)],
          calls := [DownloadFile 2 (getInputByID stored_42 None) 2048
                      (download_options_of stored_42 None)] \<rparr>)"
  by (simp add: downloadDoc_def getDoc_def example_docs_def new_AppDocsManager_def
      sharing_collaborators_def running_def stored_42_def raw_document_def Let_def)

lemma second_download:
  "downloadDoc sharing_collaborators (DocID ''42'') None
       ((example_docs [])\<lparr> fileManager := [(getInputByID stored_42 None, 0)],
          calls := [DownloadFile 2 (getInputByID stored_42 None) 2048
                      (download_options_of stored_42 None)] \<rparr>) =
     Returns (Transfer 0)
       ((example_docs [])\<lparr> fileManager := [(getInputByID stored_42 None, 0)],
          calls := [DownloadFile 2 (getInputByID stored_42 None) 2048
                      (download_options_of stored_42 None),
                    DownloadFile 2 (getInputByID stored_42 None) 2048
                      (download_options_of stored_42 None)] \<rparr>)"
  by (simp add: downloadDoc_def getDoc_def example_docs_def new_AppDocsManager_def
      sharing_collaborators_def running_def stored_42_def raw_document_def Let_def)

text \<open>
  Claim C1 as stated fails: two calls for the stored document 42, nothing settled in
  between, issue two calls of the file manager, even with a file manager that hands out
  the running promise again.
\<close>

theorem downloadDoc_second_call_counterexample:
  "length (calls (object_after
      (and_then (downloadDoc sharing_collaborators (DocID ''42'') None (example_docs []))
         (downloadDoc sharing_collaborators (DocID ''42'') None)))) = 2
   \<and> calls (object_after
      (and_then (downloadDoc sharing_collaborators (DocID ''42'') None (example_docs []))
         (downloadDoc sharing_collaborators (DocID ''42'') None))) =
     [DownloadFile 2 (getInputByID stored_42 None) 2048 (download_options_of stored_42 None),
      DownloadFile 2 (getInputByID stored_42 None) 2048 (download_options_of stored_42 None)]"
  by (simp add: and_then_def object_after_def first_download second_download)

text \<open>
  Two calls for document 42 with the file manager that shares running downloads (the two
  callers get promise 0) and with the one that does not (promises 0 and 1).
\<close>

theorem downloadDoc_calls_file_manager_each_time_witness:
  "downloadDoc sharing_collaborators (DocID ''42'') None (example_docs []) =
     Returns (Transfer 0)
       ((example_docs [])\<lparr> fileManager := [(getInputByID stored_42 None, 0)],
          calls := [DownloadFile 2 (getInputByID stored_42 None) 2048
                      (download_options_of stored_42 None)] \<rparr>)
   \<and> downloadDoc sharing_collaborators (DocID ''42'') None
       ((example_docs [])\<lparr> fileManager := [(getInputByID stored_42 None, 0)],
          calls := [DownloadFile 2 (getInputByID stored_42 None) 2048
                      (download_options_of stored_42 None)] \<rparr>) =
     Returns (Transfer 0)
       ((example_docs [])\<lparr> fileManager := [(getInputByID stored_42 None, 0)],
          calls := [DownloadFile 2 (getInputByID stored_42 None) 2048
                      (download_options_of stored_42 None),
                    DownloadFile 2 (getInputByID stored_42 None) 2048
                      (download_options_of stored_42 None)] \<rparr>)
   \<and> downloadDoc fresh_collaborators (DocID ''42'') None (example_docs 0) =
     Returns (Transfer 0)
       ((example_docs 0)\<lparr> fileManager := Suc 0,
          calls := [DownloadFile 2 (getInputByID stored_42 None) 2048
                      (download_options_of stored_42 None)] \<rparr>)
   \<and> downloadDoc fresh_collaborators (DocID ''42'') None
       ((example_docs 0)\<lparr> fileManager := Suc 0,
          calls := [DownloadFile 2 (getInputByID stored_42 None) 2048
                      (download_options_of stored_42 None)] \<rparr>) =
     Returns (Transfer 1)
       ((example_docs 0)\<lparr> fileManager := Suc (Suc 0),
          calls := [DownloadFile 2 (getInputByID stored_42 None) 2048
                      (download_options_of stored_42 None),
                    DownloadFile 2 (getInputByID stored_42 None) 2048
                      (download_options_of stored_42 None)] \<rparr>)"
proof -
  have g: "getDoc (DocID ''42'') (example_docs fm) = Some stored_42" for fm :: 'a
    by (simp add: getDoc_def example_docs_def)
  have e: "ctor stored_42 \<noteq> ''documentEmpty''"
    by (simp add: stored_42_def raw_document_def)
  have n: "\<not> served_from_cache C stored_42 None fm" for C :: "'a collaborators" and fm
    by (simp add: served_from_cache_def stored_42_def raw_document_def)
  have f: "fileManager (example_docs fm) = fm" "calls (example_docs fm) = []" for fm :: 'a
    by (simp_all add: example_docs_def new_AppDocsManager_def)
  have s: "downloadFile sharing_collaborators [] 2 (getInputByID stored_42 None) 2048
               (download_options_of stored_42 None) = (0, [(getInputByID stored_42 None, 0)])"
     "downloadFile sharing_collaborators [(getInputByID stored_42 None, 0)] 2 (getInputByID stored_42 None) 2048
               (download_options_of stored_42 None) = (0, [(getInputByID stored_42 None, 0)])"
    by (simp_all add: sharing_collaborators_def running_def)
  have d: "dc_id stored_42 = 2" "size' stored_42 = 2048"
    by (simp_all add: stored_42_def raw_document_def)
  have a: "downloadDoc sharing_collaborators (DocID ''42'') None (example_docs []) =
     Returns (Transfer 0)
       ((example_docs [])\<lparr> fileManager := [(getInputByID stored_42 None, 0)],
          calls := [DownloadFile 2 (getInputByID stored_42 None) 2048
                      (download_options_of stored_42 None)] \<rparr>)
   \<and> downloadDoc sharing_collaborators (DocID ''42'') None
       ((example_docs [])\<lparr> fileManager := [(getInputByID stored_42 None, 0)],
          calls := [DownloadFile 2 (getInputByID stored_42 None) 2048
                      (download_options_of stored_42 None)] \<rparr>) =
     Returns (Transfer 0)
       ((example_docs [])\<lparr> fileManager := [(getInputByID stored_42 None, 0)],
          calls := [DownloadFile 2 (getInputByID stored_42 None) 2048
                      (download_options_of stored_42 None),
                    DownloadFile 2 (getInputByID stored_42 None) 2048
                      (download_options_of stored_42 None)] \<rparr>)"
    using downloadDoc_calls_file_manager_each_time
      [of "DocID ''42''" "example_docs []" stored_42 sharing_collaborators None]
    by (simp add: Let_def f s d g e n)
  have t: "downloadFile fresh_collaborators k 2 (getInputByID stored_42 None) 2048
               (download_options_of stored_42 None) = (k, Suc k)" for k
    by (simp add: fresh_collaborators_def)
  have b: "downloadDoc fresh_collaborators (DocID ''42'') None (example_docs 0) =
     Returns (Transfer 0)
       ((example_docs 0)\<lparr> fileManager := Suc 0,
          calls := [DownloadFile 2 (getInputByID stored_42 None) 2048
                      (download_options_of stored_42 None)] \<rparr>)
   \<and> downloadDoc fresh_collaborators (DocID ''42'') None
       ((example_docs 0)\<lparr> fileManager := Suc 0,
          calls := [DownloadFile 2 (getInputByID stored_42 None) 2048
                      (download_options_of stored_42 None)] \<rparr>) =
     Returns (Transfer 1)
       ((example_docs 0)\<lparr> fileManager := Suc (Suc 0),
          calls := [DownloadFile 2 (getInputByID stored_42 None) 2048
                      (download_options_of stored_42 None),
                    DownloadFile 2 (getInputByID stored_42 None) 2048
                      (download_options_of stored_42 None)] \<rparr>)"
    using downloadDoc_calls_file_manager_each_time
      [of "DocID ''42''" "example_docs 0" stored_42 fresh_collaborators None]
    by (simp add: Let_def f t d g e n)
  show ?thesis using a b by simp
qed

lemma saveDoc_keeps_thumbs':
  "thumbs' (object_after (saveDoc C apiDoc context m)) = thumbs' m"
  by (simp add: saveDoc_def object_after_def Let_def split_beta split: option.splits sum.splits)

lemma downloadDoc_keeps_thumbs':
  "thumbs' (object_after (downloadDoc C docID sink m)) = thumbs' m"
  by (simp add: downloadDoc_def object_after_def Let_def split_beta split: option.splits)

lemma downloadDocThumb_keeps_cached:
  "thumbs' m key = Some p \<Longrightarrow>
     thumbs' (object_after (downloadDocThumb C docID thumbSize m)) key = Some p"
  by (auto simp: downloadDocThumb_def object_after_def Let_def split_beta split: option.splits)

text \<open>
  Claim C9. For a descriptor that is not empty and a key the cache does not have, the
  call of \<open>downloadDocThumb\<close> itself stores the promise it returns, whatever the
  transfer will do: the returned object has the entry, and \<open>hasDownloadedThumb\<close> is true
  from then on. The promise is pending while the transfer is and rejected when the
  transfer is. In every later object that has the entry, \<open>downloadDocThumb\<close> returns
  that promise and changes nothing, so it calls the file manager no more; and no method
  of the manager removes or replaces an entry, so a rejected promise stays cached.
\<close>

theorem downloadDocThumb_cached_at_once_and_for_good:
  "getDoc docID m = Some doc \<and> ctor doc \<noteq> ''documentEmpty''
     \<and> thumbs' m (thumb_key (id' doc) thumbSize) = None \<longrightarrow>
   (let r = downloadSmallFile C (fileManager m) (getInputByID doc (Some thumbSize))
              (small_options_of doc);
        promise = Then_createObjectURL (Transfer (fst r));
        m1 = m\<lparr> thumbs' := (thumbs' m)(thumb_key (id' doc) thumbSize \<mapsto> promise),
                 fileManager := snd r,
                 calls := calls m @ [DownloadSmallFile (getInputByID doc (Some thumbSize))
                                       (small_options_of doc)] \<rparr>
    in downloadDocThumb C docID thumbSize m = Returns promise m1
       \<and> hasDownloadedThumb (id' doc) thumbSize m1
       \<and> (\<forall>transfer. doc_promise_outcome C transfer promise =
             (case transfer (fst r) of
                Pending \<Rightarrow> Pending
              | Rejected e \<Rightarrow> Rejected e
              | Fulfilled None \<Rightarrow> Rejected TypeError
              | Fulfilled (Some b) \<Rightarrow> Fulfilled (ObjectURL (createObjectURL C b))))
       \<and> (\<forall>m2 doc2. thumbs' m2 (thumb_key (id' doc) thumbSize) = Some promise
              \<and> getDoc docID m2 = Some doc2 \<and> id' doc2 = id' doc \<longrightarrow>
            downloadDocThumb C docID thumbSize m2 = Returns promise m2
            \<and> hasDownloadedThumb (id' doc) thumbSize m2)
       \<and> (\<forall>m2 apiDoc context x sink y. 
            thumbs' m2 (thumb_key (id' doc) thumbSize) = Some promise \<longrightarrow>
              thumbs' (object_after (saveDoc C apiDoc context m2)) (thumb_key (id' doc) thumbSize)
                = Some promise
              \<and> thumbs' (object_after (downloadDoc C x sink m2)) (thumb_key (id' doc) thumbSize)
                = Some promise
              \<and> thumbs' (object_after (downloadDocThumb C x y m2)) (thumb_key (id' doc) thumbSize)
                = Some promise))"
proof (intro impI)
  assume a: "getDoc docID m = Some doc \<and> ctor doc \<noteq> ''documentEmpty''
     \<and> thumbs' m (thumb_key (id' doc) thumbSize) = None"
  let ?r = "downloadSmallFile C (fileManager m) (getInputByID doc (Some thumbSize))
              (small_options_of doc)"
  let ?p = "Then_createObjectURL (Transfer (fst ?r))"
  let ?m1 = "m\<lparr> thumbs' := (thumbs' m)(thumb_key (id' doc) thumbSize \<mapsto> ?p),
                 fileManager := snd ?r,
                 calls := calls m @ [DownloadSmallFile (getInputByID doc (Some thumbSize))
                                       (small_options_of doc)] \<rparr>"
  have 1: "downloadDocThumb C docID thumbSize m = Returns ?p ?m1"
    using a by (simp add: downloadDocThumb_def Let_def split_beta)
  have 2: "hasDownloadedThumb (id' doc) thumbSize ?m1"
    by (simp add: hasDownloadedThumb_def)
  have 3: "\<forall>transfer. doc_promise_outcome C transfer ?p =
             (case transfer (fst ?r) of
                Pending \<Rightarrow> Pending
              | Rejected e \<Rightarrow> Rejected e
              | Fulfilled None \<Rightarrow> Rejected TypeError
              | Fulfilled (Some b) \<Rightarrow> Fulfilled (ObjectURL (createObjectURL C b)))"
    by (simp add: promise_then1_def promise_then_def settle_with_def
        split: outcome.splits option.splits)
  have 4: "\<forall>m2 doc2. thumbs' m2 (thumb_key (id' doc) thumbSize) = Some ?p
              \<and> getDoc docID m2 = Some doc2 \<and> id' doc2 = id' doc \<longrightarrow>
            downloadDocThumb C docID thumbSize m2 = Returns ?p m2
            \<and> hasDownloadedThumb (id' doc) thumbSize m2"
    by (simp add: downloadDocThumb_def hasDownloadedThumb_def Let_def)
  have 5: "\<forall>m2 apiDoc context x sink y. 
            thumbs' m2 (thumb_key (id' doc) thumbSize) = Some ?p \<longrightarrow>
              thumbs' (object_after (saveDoc C apiDoc context m2)) (thumb_key (id' doc) thumbSize)
                = Some ?p
              \<and> thumbs' (object_after (downloadDoc C x sink m2)) (thumb_key (id' doc) thumbSize)
                = Some ?p
              \<and> thumbs' (object_after (downloadDocThumb C x y m2)) (thumb_key (id' doc) thumbSize)
                = Some ?p"
    by (simp add: saveDoc_keeps_thumbs' downloadDoc_keeps_thumbs' downloadDocThumb_keeps_cached)
  show "let r = ?r; promise = Then_createObjectURL (Transfer (fst r));
        m1 = m\<lparr> thumbs' := (thumbs' m)(thumb_key (id' doc) thumbSize \<mapsto> promise),
                 fileManager := snd r,
                 calls := calls m @ [DownloadSmallFile (getInputByID doc (Some thumbSize))
                                       (small_options_of doc)] \<rparr>
    in downloadDocThumb C docID thumbSize m = Returns promise m1
       \<and> hasDownloadedThumb (id' doc) thumbSize m1
       \<and> (\<forall>transfer. doc_promise_outcome C transfer promise =
             (case transfer (fst r) of
                Pending \<Rightarrow> Pending
              | Rejected e \<Rightarrow> Rejected e
              | Fulfilled None \<Rightarrow> Rejected TypeError
              | Fulfilled (Some b) \<Rightarrow> Fulfilled (ObjectURL (createObjectURL C b))))
       \<and> (\<forall>m2 doc2. thumbs' m2 (thumb_key (id' doc) thumbSize) = Some promise
              \<and> getDoc docID m2 = Some doc2 \<and> id' doc2 = id' doc \<longrightarrow>
            downloadDocThumb C docID thumbSize m2 = Returns promise m2
            \<and> hasDownloadedThumb (id' doc) thumbSize m2)
       \<and> (\<forall>m2 apiDoc context x sink y. 
            thumbs' m2 (thumb_key (id' doc) thumbSize) = Some promise \<longrightarrow>
              thumbs' (object_after (saveDoc C apiDoc context m2)) (thumb_key (id' doc) thumbSize)
                = Some promise
              \<and> thumbs' (object_after (downloadDoc C x sink m2)) (thumb_key (id' doc) thumbSize)
                = Some promise
              \<and> thumbs' (object_after (downloadDocThumb C x y m2)) (thumb_key (id' doc) thumbSize)
                = Some promise)"
    unfolding Let_def using 1 2 3 4 5 by blast
qed


text \<open>
  The thumbnail \<open>m\<close> of document 42, asked for twice; the promise is rejected when the
  transfer fails.
\<close>

theorem downloadDocThumb_cached_at_once_and_for_good_witness:
  "downloadDocThumb fresh_collaborators (DocID ''42'') ''m'' (example_docs 0) =
     Returns (Then_createObjectURL (Transfer 0))
       ((example_docs 0)\<lparr> thumbs' := [''42-m'' \<mapsto> Then_createObjectURL (Transfer 0)],
          fileManager := Suc 0,
          calls := [DownloadSmallFile (getInputByID stored_42 (Some ''m''))
                      (small_options_of stored_42)] \<rparr>)
   \<and> hasDownloadedThumb ''42'' ''m''
       (object_after (downloadDocThumb fresh_collaborators (DocID ''42'') ''m'' (example_docs 0)))
   \<and> doc_promise_outcome fresh_collaborators (\<lambda>p. Rejected (Thrown ''network''))
        (Then_createObjectURL (Transfer 0)) = Rejected (Thrown ''network'')
   \<and> and_then (downloadDocThumb fresh_collaborators (DocID ''42'') ''m'' (example_docs 0))
        (downloadDocThumb fresh_collaborators (DocID ''42'') ''m'') =
     Returns (Then_createObjectURL (Transfer 0))
       ((example_docs 0)\<lparr> thumbs' := [''42-m'' \<mapsto> Then_createObjectURL (Transfer 0)],
          fileManager := Suc 0,
          calls := [DownloadSmallFile (getInputByID stored_42 (Some ''m''))
                      (small_options_of stored_42)] \<rparr>)"
proof -
  let ?m1 = "(example_docs (0::nat))\<lparr> thumbs' := [''42-m'' \<mapsto> Then_createObjectURL (Transfer 0)],
          fileManager := Suc 0,
          calls := [DownloadSmallFile (getInputByID stored_42 (Some ''m''))
                      (small_options_of stored_42)] \<rparr>"
  have h: "getDoc (DocID ''42'') (example_docs (0::nat)) = Some stored_42
     \<and> ctor stored_42 \<noteq> ''documentEmpty''
     \<and> thumbs' (example_docs (0::nat)) (thumb_key (id' stored_42) ''m'') = None"
    by (simp add: getDoc_def example_docs_def new_AppDocsManager_def stored_42_def raw_document_def)
  have k: "thumb_key (id' stored_42) ''m'' = ''42-m''"
    by (simp add: thumb_key_def stored_42_def raw_document_def)
  have r: "downloadSmallFile fresh_collaborators (fileManager (example_docs (0::nat)))
             (getInputByID stored_42 (Some ''m'')) (small_options_of stored_42) = (0, Suc 0)"
    by (simp add: fresh_collaborators_def example_docs_def new_AppDocsManager_def)
  have e: "thumbs' (example_docs (0::nat)) = Map.empty" "calls (example_docs (0::nat)) = []"
    by (simp_all add: example_docs_def new_AppDocsManager_def)
  have l: "thumbs' ?m1 (thumb_key (id' stored_42) ''m'') = Some (Then_createObjectURL (Transfer 0))
      \<and> getDoc (DocID ''42'') ?m1 = Some stored_42 \<and> id' stored_42 = id' stored_42"
    by (simp add: k getDoc_def example_docs_def)
  from downloadDocThumb_cached_at_once_and_for_good
      [of "DocID ''42''" "example_docs (0::nat)" stored_42 "''m''" fresh_collaborators] h
  have t: "downloadDocThumb fresh_collaborators (DocID ''42'') ''m'' (example_docs 0) =
        Returns (Then_createObjectURL (Transfer 0)) ?m1
      \<and> (\<forall>m2 doc2. thumbs' m2 (thumb_key (id' stored_42) ''m'') = Some (Then_createObjectURL (Transfer 0))
              \<and> getDoc (DocID ''42'') m2 = Some doc2 \<and> id' doc2 = id' stored_42 \<longrightarrow>
            downloadDocThumb fresh_collaborators (DocID ''42'') ''m'' m2 =
              Returns (Then_createObjectURL (Transfer 0)) m2)"
    unfolding Let_def r k e by simp
  then have a: "downloadDocThumb fresh_collaborators (DocID ''42'') ''m'' (example_docs 0) = Returns (Then_createObjectURL (Transfer 0)) ?m1"
    by blast
  from t l have b: "downloadDocThumb fresh_collaborators (DocID ''42'') ''m'' ?m1 = Returns (Then_createObjectURL (Transfer 0)) ?m1"
    by blast
  have c: "hasDownloadedThumb ''42'' ''m'' ?m1"
    by (simp add: hasDownloadedThumb_def thumb_key_def)
  show ?thesis
    using a b c
    by (simp add: and_then_def object_after_def promise_then1_def promise_then_def settle_with_def)
qed


section \<open>The state store: theorems about loading\<close>

lemma migrations_settled:
  "themes (settings st) \<noteq> None \<Longrightarrow> theme (settings st) \<noteq> None \<Longrightarrow>
     migrations init st = Inr (init, st)"
  by (auto simp: migrations_def migrate_background_def migrate_theme_def)

lemma assign_background_twice:
  "assign_background n b (assign_background n b ts) = assign_background n b ts"
  by (induction ts) auto

lemma migrate_theme_twice: "migrate_theme (migrate_theme st) = migrate_theme st"
  by (simp add: migrate_theme_def)

lemma migrate_theme_keeps:
  "themes (settings (migrate_theme st)) = themes (settings st)
   \<and> background_deprecated (settings (migrate_theme st)) = background_deprecated (settings st)"
  by (simp add: migrate_theme_def)

text \<open>
  Claim C8. On a snapshot whose settings have a themes list and a theme name, the two
  migrations change neither the snapshot nor \<open>STATE_INIT\<close>. More generally, running
  them again on what a first run produced changes nothing further: the background
  migration assigns the same background to the same theme of \<open>STATE_INIT\<close>, and the
  theme migration finds the theme name it set.
\<close>

theorem migrations_idempotent:
  "(themes (settings st) \<noteq> None \<and> theme (settings st) \<noteq> None \<longrightarrow>
      migrations init st = Inr (init, st))
   \<and> (migrations init st = Inr (init', st') \<longrightarrow> migrations init' st' = Inr (init', st'))"
proof (intro conjI impI)
  assume "themes (settings st) \<noteq> None \<and> theme (settings st) \<noteq> None"
  then show "migrations init st = Inr (init, st)"
    by (simp add: migrations_settled)
next
  assume a: "migrations init st = Inr (init', st')"
  then have s: "st' = migrate_theme st" and i: "migrate_background init st = Inr init'"
    by (auto simp: migrations_def split: sum.splits)
  have "migrate_background init' st' = Inr init'"
  proof (cases "themes (settings st) = None \<and> background_deprecated (settings st) \<noteq> None")
    case False
    then show ?thesis using s i migrate_theme_keeps [of st]
      by (auto simp: migrate_background_def)
  next
    case True
    then obtain ts where ts: "themes (settings init) = Some ts"
      and i': "init' = init\<lparr> settings := (settings init)\<lparr> themes :=
              Some (assign_background (theme (settings init))
                      (the (background_deprecated (settings st))) ts) \<rparr> \<rparr>"
      using i by (auto simp: migrate_background_def split: option.splits)
    show ?thesis
      using True s migrate_theme_keeps [of st]
      by (simp add: migrate_background_def i' assign_background_twice)
  qed
  then show "migrations init' st' = Inr (init', st')"
    by (simp add: migrations_def s migrate_theme_twice)
qed

lemma legacy_migrated:
  "migrations (STATE_INIT 1000 ''0.4.0'') legacy_state = Inr (STATE_INIT_white, legacy_state_night)"
  by (simp add: migrations_def migrate_background_def migrate_theme_def legacy_state_def
      legacy_settings_def STATE_INIT_white_def legacy_state_night_def STATE_INIT_def)

text \<open>
  A snapshot that has themes and a theme name beside the two legacy fields, and a legacy
  snapshot that has only the legacy fields, migrated twice.
\<close>

theorem migrations_idempotent_witness:
  "migrations (STATE_INIT 1000 ''0.4.0'') migrated_state = Inr (STATE_INIT 1000 ''0.4.0'', migrated_state)
   \<and> migrations (STATE_INIT 1000 ''0.4.0'') legacy_state = Inr (STATE_INIT_white, legacy_state_night)
   \<and> migrations STATE_INIT_white legacy_state_night = Inr (STATE_INIT_white, legacy_state_night)"
proof -
  have h: "themes (settings migrated_state) \<noteq> None \<and> theme (settings migrated_state) \<noteq> None"
    by (simp add: migrated_state_def legacy_settings_def STATE_INIT_def)
  from migrations_idempotent [of migrated_state "STATE_INIT 1000 ''0.4.0''"] h
  have a: "migrations (STATE_INIT 1000 ''0.4.0'') migrated_state
      = Inr (STATE_INIT 1000 ''0.4.0'', migrated_state)"
    by blast
  from migrations_idempotent [of legacy_state "STATE_INIT 1000 ''0.4.0''" STATE_INIT_white
      legacy_state_night] legacy_migrated
  have b: "migrations STATE_INIT_white legacy_state_night = Inr (STATE_INIT_white, legacy_state_night)"
    by blast
  show ?thesis using a b legacy_migrated by simp
qed

lemma filling_default:
  "filling (settings (STATE_INIT 1000 ''0.4.0'')) (settings (STATE_INIT 1000 ''0.4.0''))
     = Inr (settings (STATE_INIT 1000 ''0.4.0''))"
  by (simp add: filling_def STATE_INIT_def)

lemma state_of_old_session:
  "state_of_stored (STATE_INIT 1000 ''0.4.0'') old_session = kept_session"
  by (simp add: state_of_stored_def old_session_def nothing_stored_def value_or_def
      kept_session_def STATE_INIT_def)

lemma refresh_old_session:
  "refresh (STATE_INIT 1000 ''0.4.0'') kept_session = refreshed_session"
  by (simp add: refresh_def kept_session_def refreshed_session_def keep_recent_def prop_get_def
      STATE_INIT_def Let_def)


lemma sessions_settings:
  "settings kept_session = settings (STATE_INIT 1000 ''0.4.0'')"
  "settings refreshed_session = settings (STATE_INIT 1000 ''0.4.0'')"
  "themes (settings (STATE_INIT 1000 ''0.4.0'')) \<noteq> None"
  "theme (settings (STATE_INIT 1000 ''0.4.0'')) \<noteq> None"
  "stateCreatedTime kept_session = 500"
  by (simp_all add: kept_session_def refreshed_session_def STATE_INIT_def)

lemma load_stale_session:
  "loadSavedState_then (example_env 86400501) old_session example_manager =
     Returns refreshed_session
       (example_manager\<lparr> state := Some refreshed_session,
          rootScope_settings := Some (settings (STATE_INIT 1000 ''0.4.0'')) \<rparr>)"
proof -
  have m: "migrations (STATE_INIT 1000 ''0.4.0'') refreshed_session
      = Inr (STATE_INIT 1000 ''0.4.0'', refreshed_session)"
    by (rule migrations_settled) (simp_all add: sessions_settings)
  have v: "refreshed_session\<lparr> settings := settings (STATE_INIT 1000 ''0.4.0''), version := ''0.4.0'' \<rparr>
      = refreshed_session"
    by (simp add: refreshed_session_def STATE_INIT_def)
  show ?thesis
    by (simp add: loadSavedState_then_def example_manager_eq example_env_def state_of_old_session
        sessions_settings REFRESH_EVERY_def refresh_old_session m filling_default v)
      (simp add: old_session_def nothing_stored_def)
qed

lemma load_fresh_session:
  "loadSavedState_then (example_env 500) old_session example_manager =
     Returns kept_session
       (example_manager\<lparr> state := Some kept_session,
          rootScope_settings := Some (settings (STATE_INIT 1000 ''0.4.0'')) \<rparr>)"
proof -
  have m: "migrations (STATE_INIT 1000 ''0.4.0'') kept_session
      = Inr (STATE_INIT 1000 ''0.4.0'', kept_session)"
    by (rule migrations_settled) (simp_all add: sessions_settings)
  have v: "kept_session\<lparr> settings := settings (STATE_INIT 1000 ''0.4.0''), version := ''0.4.0'' \<rparr>
      = kept_session"
    by (simp add: kept_session_def STATE_INIT_def)
  show ?thesis
    by (simp add: loadSavedState_then_def example_manager_eq example_env_def state_of_old_session
        sessions_settings REFRESH_EVERY_def m filling_default v)
      (simp add: old_session_def nothing_stored_def)
qed



lemma fold_keep_recent:
  "fold (keep_recent s) xs (u, c) =
     ((\<lambda>p. if p \<in> set xs \<and> \<not> p < 0 then Some (prop_get (users s) p) else u p),
      (\<lambda>p. if p \<in> set xs \<and> p < 0 then Some (prop_get (chats s) p) else c p))"
proof (induction xs arbitrary: u c)
  case Nil
  show ?case by simp
next
  case (Cons x xs)
  have step: "keep_recent s x (u, c) =
      (if x < 0 then (u, c(x \<mapsto> prop_get (chats s) x)) else (u(x \<mapsto> prop_get (users s) x), c))"
    by (simp add: keep_recent_def)
  show ?case
    by (cases "x < 0") (auto simp: step Cons.IH fun_eq_iff)
qed

lemma refresh_fields:
  "dialogs (refresh init s) = dialogs init
   \<and> allDialogsLoaded (refresh init s) = allDialogsLoaded init
   \<and> messages (refresh init s) = messages init
   \<and> contactsList (refresh init s) = contactsList init
   \<and> stateCreatedTime (refresh init s) = stateCreatedTime init
   \<and> updates (refresh init s) = updates init
   \<and> maxSeenMsgId (refresh init s) = maxSeenMsgId init
   \<and> filters (refresh init s) = filters init
   \<and> topPeers (refresh init s) = topPeers init
   \<and> recentSearch (refresh init s) = recentSearch s"
  by (simp add: refresh_def Let_def)

lemma refresh_peers:
  "users (refresh init s) =
     (\<lambda>p. if p \<in> set (recentSearch s) \<and> \<not> p < 0 then Some (prop_get (users s) p) else None)
   \<and> chats (refresh init s) =
     (\<lambda>p. if p \<in> set (recentSearch s) \<and> p < 0 then Some (prop_get (chats s) p) else None)"
  by (cases "recentSearch s = []") (auto simp: refresh_def Let_def fold_keep_recent fun_eq_iff)

text \<open>What the callback leaves of the state it built before the migrations.\<close>

lemma loadSavedState_then_frame:
  assumes "loadSavedState_then env arr m = Returns st m'"
  defines "s1 \<equiv> (let st0 = state_of_stored (STATE_INIT_now m) arr in
                   if stateCreatedTime st0 + REFRESH_EVERY < time env
                   then refresh (STATE_INIT_now m) st0 else st0)"
  shows "state m' = Some st
   \<and> dialogs st = dialogs s1 \<and> allDialogsLoaded st = allDialogsLoaded s1
   \<and> messages st = messages s1 \<and> contactsList st = contactsList s1
   \<and> stateCreatedTime st = stateCreatedTime s1 \<and> updates st = updates s1
   \<and> maxSeenMsgId st = maxSeenMsgId s1 \<and> filters st = filters s1
   \<and> topPeers st = topPeers s1 \<and> recentSearch st = recentSearch s1
   \<and> users st = users s1 \<and> chats st = chats s1
   \<and> version st = STATE_VERSION env"
  using assms(1) unfolding s1_def
  by (auto simp: loadSavedState_then_def migrations_def migrate_theme_def Let_def
      split: sum.splits if_splits)


text \<open>
  Claim C7. When the callback of the load returns (the validation did not throw), the
  manager holds the state it resolved with, and:
  if the stored creation time plus \<open>REFRESH_EVERY\<close> is before now, every key of
  \<open>REFRESH_KEYS\<close> has the value \<open>STATE_INIT\<close> has, and \<open>users\<close> and \<open>chats\<close> have
  exactly the peers of the recent-search list as keys (the non-negative ones in \<open>users\<close>,
  the negative ones in \<open>chats\<close>), each with the value the loaded record had for it;
  if the stored creation time is now, every key of \<open>REFRESH_KEYS\<close>, and \<open>users\<close> and
  \<open>chats\<close>, have the stored value, or the default where nothing was stored.
\<close>

theorem load_refresh_policy:
  "loadSavedState_then env arr m = Returns st m' \<longrightarrow>
   (let init = STATE_INIT_now m; st0 = state_of_stored init arr in
    state m' = Some st
    \<and> (stateCreatedTime st0 + REFRESH_EVERY < time env \<longrightarrow>
          dialogs st = dialogs init
          \<and> allDialogsLoaded st = allDialogsLoaded init
          \<and> messages st = messages init
          \<and> contactsList st = contactsList init
          \<and> stateCreatedTime st = stateCreatedTime init
          \<and> updates st = updates init
          \<and> maxSeenMsgId st = maxSeenMsgId init
          \<and> filters st = filters init
          \<and> topPeers st = topPeers init
          \<and> recentSearch st = recentSearch st0
          \<and> users st =
              (\<lambda>p. if p \<in> set (recentSearch st0) \<and> \<not> p < 0
                   then Some (prop_get (users st0) p) else None)
          \<and> chats st =
              (\<lambda>p. if p \<in> set (recentSearch st0) \<and> p < 0
                   then Some (prop_get (chats st0) p) else None))
    \<and> (got_stateCreatedTime arr = Some (time env) \<longrightarrow>
          dialogs st = value_or (got_dialogs arr) (dialogs init)
          \<and> allDialogsLoaded st = value_or (got_allDialogsLoaded arr) (allDialogsLoaded init)
          \<and> messages st = value_or (got_messages arr) (messages init)
          \<and> contactsList st = value_or (got_contactsList arr) (contactsList init)
          \<and> stateCreatedTime st = time env
          \<and> updates st = value_or (got_updates arr) (updates init)
          \<and> maxSeenMsgId st = value_or (got_maxSeenMsgId arr) (maxSeenMsgId init)
          \<and> filters st = value_or (got_filters arr) (filters init)
          \<and> topPeers st = value_or (got_topPeers arr) (topPeers init)
          \<and> users st = value_or (got_users arr) (users init)
          \<and> chats st = value_or (got_chats arr) (chats init)))"
proof (intro impI)
  assume a: "loadSavedState_then env arr m = Returns st m'"
  let ?init = "STATE_INIT_now m"
  let ?st0 = "state_of_stored ?init arr"
  note f = loadSavedState_then_frame [OF a]
  have old: "stateCreatedTime ?st0 + REFRESH_EVERY < time env \<Longrightarrow>
          dialogs st = dialogs ?init
          \<and> allDialogsLoaded st = allDialogsLoaded ?init
          \<and> messages st = messages ?init
          \<and> contactsList st = contactsList ?init
          \<and> stateCreatedTime st = stateCreatedTime ?init
          \<and> updates st = updates ?init
          \<and> maxSeenMsgId st = maxSeenMsgId ?init
          \<and> filters st = filters ?init
          \<and> topPeers st = topPeers ?init
          \<and> recentSearch st = recentSearch ?st0
          \<and> users st =
              (\<lambda>p. if p \<in> set (recentSearch ?st0) \<and> \<not> p < 0
                   then Some (prop_get (users ?st0) p) else None)
          \<and> chats st =
              (\<lambda>p. if p \<in> set (recentSearch ?st0) \<and> p < 0
                   then Some (prop_get (chats ?st0) p) else None)"
    using f refresh_fields [of ?init ?st0] refresh_peers [of ?init ?st0]
    by (simp add: Let_def)
  have fresh: "got_stateCreatedTime arr = Some (time env) \<Longrightarrow>
          dialogs st = value_or (got_dialogs arr) (dialogs ?init)
          \<and> allDialogsLoaded st = value_or (got_allDialogsLoaded arr) (allDialogsLoaded ?init)
          \<and> messages st = value_or (got_messages arr) (messages ?init)
          \<and> contactsList st = value_or (got_contactsList arr) (contactsList ?init)
          \<and> stateCreatedTime st = time env
          \<and> updates st = value_or (got_updates arr) (updates ?init)
          \<and> maxSeenMsgId st = value_or (got_maxSeenMsgId arr) (maxSeenMsgId ?init)
          \<and> filters st = value_or (got_filters arr) (filters ?init)
          \<and> topPeers st = value_or (got_topPeers arr) (topPeers ?init)
          \<and> users st = value_or (got_users arr) (users ?init)
          \<and> chats st = value_or (got_chats arr) (chats ?init)"
  proof -
    assume t: "got_stateCreatedTime arr = Some (time env)"
    then have "stateCreatedTime ?st0 = time env"
      by (simp add: state_of_stored_def value_or_def)
    then have "\<not> stateCreatedTime ?st0 + REFRESH_EVERY < time env"
      by (simp add: REFRESH_EVERY_def)
    then show ?thesis
      using f t by (simp add: Let_def state_of_stored_def value_or_def)
  qed
  from f have "state m' = Some st" by simp
  then show "let init = STATE_INIT_now m; st0 = state_of_stored init arr in
    state m' = Some st
    \<and> (stateCreatedTime st0 + REFRESH_EVERY < time env \<longrightarrow>
          dialogs st = dialogs init
          \<and> allDialogsLoaded st = allDialogsLoaded init
          \<and> messages st = messages init
          \<and> contactsList st = contactsList init
          \<and> stateCreatedTime st = stateCreatedTime init
          \<and> updates st = updates init
          \<and> maxSeenMsgId st = maxSeenMsgId init
          \<and> filters st = filters init
          \<and> topPeers st = topPeers init
          \<and> recentSearch st = recentSearch st0
          \<and> users st =
              (\<lambda>p. if p \<in> set (recentSearch st0) \<and> \<not> p < 0
                   then Some (prop_get (users st0) p) else None)
          \<and> chats st =
              (\<lambda>p. if p \<in> set (recentSearch st0) \<and> p < 0
                   then Some (prop_get (chats st0) p) else None))
    \<and> (got_stateCreatedTime arr = Some (time env) \<longrightarrow>
          dialogs st = value_or (got_dialogs arr) (dialogs init)
          \<and> allDialogsLoaded st = value_or (got_allDialogsLoaded arr) (allDialogsLoaded init)
          \<and> messages st = value_or (got_messages arr) (messages init)
          \<and> contactsList st = value_or (got_contactsList arr) (contactsList init)
          \<and> stateCreatedTime st = time env
          \<and> updates st = value_or (got_updates arr) (updates init)
          \<and> maxSeenMsgId st = value_or (got_maxSeenMsgId arr) (maxSeenMsgId init)
          \<and> filters st = value_or (got_filters arr) (filters init)
          \<and> topPeers st = value_or (got_topPeers arr) (topPeers init)
          \<and> users st = value_or (got_users arr) (users init)
          \<and> chats st = value_or (got_chats arr) (chats init))"
    unfolding Let_def using old fresh by blast
qed


text \<open>
  A session stored at time 500 and loaded a day and a millisecond later, and the same
  session loaded at time 500.
\<close>

theorem load_refresh_policy_witness:
  "loadSavedState_then (example_env 86400501) old_session example_manager =
     Returns refreshed_session
       (example_manager\<lparr> state := Some refreshed_session,
          rootScope_settings := Some (settings (STATE_INIT 1000 ''0.4.0'')) \<rparr>)
   \<and> dialogs refreshed_session = [] \<and> contactsList refreshed_session = []
   \<and> stateCreatedTime refreshed_session = 1000 \<and> maxSeenMsgId refreshed_session = 0
   \<and> topPeers refreshed_session = []
   \<and> users refreshed_session = [5 \<mapsto> Some 50, 9 \<mapsto> None]
   \<and> chats refreshed_session = [-3 \<mapsto> Some 30]
   \<and> loadSavedState_then (example_env 500) old_session example_manager =
     Returns kept_session
       (example_manager\<lparr> state := Some kept_session,
          rootScope_settings := Some (settings (STATE_INIT 1000 ''0.4.0'')) \<rparr>)
   \<and> dialogs kept_session = [11, 12] \<and> contactsList kept_session = [5, 6]
   \<and> stateCreatedTime kept_session = 500 \<and> maxSeenMsgId kept_session = 900
   \<and> topPeers kept_session = [6]
   \<and> users kept_session = [5 \<mapsto> Some 50, 6 \<mapsto> Some 60]
   \<and> chats kept_session = [-3 \<mapsto> Some 30, -4 \<mapsto> Some 40]"
proof -
  have i: "STATE_INIT_now example_manager = STATE_INIT 1000 ''0.4.0''"
    by (simp add: example_manager_eq)
  have stale: "stateCreatedTime (state_of_stored (STATE_INIT 1000 ''0.4.0'') old_session)
      + REFRESH_EVERY < time (example_env 86400501)"
    by (simp add: state_of_old_session sessions_settings REFRESH_EVERY_def example_env_def)
  have fresh: "got_stateCreatedTime old_session = Some (time (example_env 500))"
    by (simp add: old_session_def nothing_stored_def example_env_def)
  from load_refresh_policy [of "example_env 86400501" old_session example_manager
      refreshed_session] load_stale_session stale
  have a: "dialogs refreshed_session = dialogs (STATE_INIT 1000 ''0.4.0'')
      \<and> contactsList refreshed_session = contactsList (STATE_INIT 1000 ''0.4.0'')
      \<and> stateCreatedTime refreshed_session = stateCreatedTime (STATE_INIT 1000 ''0.4.0'')
      \<and> maxSeenMsgId refreshed_session = maxSeenMsgId (STATE_INIT 1000 ''0.4.0'')
      \<and> topPeers refreshed_session = topPeers (STATE_INIT 1000 ''0.4.0'')"
    by (simp add: Let_def i)
  from load_refresh_policy [of "example_env 500" old_session example_manager
      kept_session] load_fresh_session fresh
  have b: "dialogs kept_session = value_or (got_dialogs old_session) (dialogs (STATE_INIT 1000 ''0.4.0''))
      \<and> contactsList kept_session = value_or (got_contactsList old_session) (contactsList (STATE_INIT 1000 ''0.4.0''))
      \<and> stateCreatedTime kept_session = time (example_env 500)
      \<and> maxSeenMsgId kept_session = value_or (got_maxSeenMsgId old_session) (maxSeenMsgId (STATE_INIT 1000 ''0.4.0''))
      \<and> topPeers kept_session = value_or (got_topPeers old_session) (topPeers (STATE_INIT 1000 ''0.4.0''))
      \<and> users kept_session = value_or (got_users old_session) (users (STATE_INIT 1000 ''0.4.0''))
      \<and> chats kept_session = value_or (got_chats old_session) (chats (STATE_INIT 1000 ''0.4.0''))"
    by (simp add: Let_def i)
  have c: "users refreshed_session = [5 \<mapsto> Some 50, 9 \<mapsto> None]"
    "chats refreshed_session = [-3 \<mapsto> Some 30]"
    by (simp_all add: refreshed_session_def)
  from a have a': "dialogs refreshed_session = [] \<and> contactsList refreshed_session = []
   \<and> stateCreatedTime refreshed_session = 1000 \<and> maxSeenMsgId refreshed_session = 0
   \<and> topPeers refreshed_session = []"
    by (simp add: STATE_INIT_def)
  from b have b': "dialogs kept_session = [11, 12] \<and> contactsList kept_session = [5, 6]
   \<and> stateCreatedTime kept_session = 500 \<and> maxSeenMsgId kept_session = 900
   \<and> topPeers kept_session = [6]
   \<and> users kept_session = [5 \<mapsto> Some 50, 6 \<mapsto> Some 60]
   \<and> chats kept_session = [-3 \<mapsto> Some 30, -4 \<mapsto> Some 40]"
    by (simp add: old_session_def nothing_stored_def value_or_def example_env_def)
  show ?thesis
    using a' b' c load_stale_session load_fresh_session by simp
qed

lemma first_rejection_Some: "first_rejection ps = Some e \<Longrightarrow> Rejected e \<in> set ps"
  by (induction ps rule: first_rejection.induct) auto

lemma first_rejection_None: "first_rejection ps = None \<longleftrightarrow> (\<forall>e. Rejected e \<notin> set ps)"
  by (induction ps rule: first_rejection.induct) auto

lemma fulfilled_values_None: "fulfilled_values ps = None \<Longrightarrow> first_rejection ps = None \<Longrightarrow> Pending \<in> set ps"
  by (induction ps rule: fulfilled_values.induct) (auto split: if_splits)

lemma promise_all_cases:
  "promise_all ps =
     (case first_rejection ps of
        Some e \<Rightarrow> Rejected e
      | None \<Rightarrow> if Pending \<in> set ps then Pending else Fulfilled (the (fulfilled_values ps)))"
proof (cases "first_rejection ps")
  case (Some e)
  then show ?thesis by (simp add: promise_all_def)
next
  case None
  have "fulfilled_values ps = None \<longleftrightarrow> Pending \<in> set ps"
    using None
    by (induction ps rule: fulfilled_values.induct) auto
  then show ?thesis using None by (auto simp: promise_all_def split: option.splits)
qed

lemma promise_all_rejected:
  "Rejected e \<in> set ps \<Longrightarrow> \<exists>e'. Rejected e' \<in> set ps \<and> promise_all ps = Rejected e'"
proof -
  assume a: "Rejected e \<in> set ps"
  then have "first_rejection ps \<noteq> None" by (auto simp: first_rejection_None)
  then obtain e' where "first_rejection ps = Some e'" by auto
  then show ?thesis using first_rejection_Some [of ps e'] by (auto simp: promise_all_def)
qed

lemma promise_all_settled: "Pending \<notin> set ps \<Longrightarrow> promise_all ps \<noteq> Pending"
  by (simp add: promise_all_cases split: option.splits)

lemma LoadAll_outcome:
  "state_promise_outcome settles state_then (LoadAll ps) =
     (if promise_all (map settles ps) = Pending then Pending else Fulfilled state_then)"
  by (cases "promise_all (map settles ps)") (simp_all add: promise_then_def settle_with_def)

lemma state_promise_never_rejected:
  "state_promise_outcome settles state_then p \<noteq> Rejected e"
  by (cases p) (simp_all add: LoadAll_outcome del: state_promise_outcome.simps(1))

lemma loaded_outcome_cases:
  "loaded_outcome env reads m =
    (case reads of
       Pending \<Rightarrow> Pending
     | Rejected e \<Rightarrow> Fulfilled (Caught e)
     | Fulfilled arr \<Rightarrow>
         (case loadSavedState_then env arr m of
            Returns st m' \<Rightarrow> Fulfilled (Snapshot st)
          | Throws e m' \<Rightarrow> Fulfilled (Caught e)))"
  by (simp add: loaded_outcome_def promise_catch_def promise_then1_def promise_then_def
      settle_with_def split: outcome.splits completion.splits)

lemma loaded_outcome_not_rejected: "loaded_outcome env reads m \<noteq> Rejected e"
  by (simp add: loaded_outcome_cases split: outcome.splits completion.splits)

















text \<open>
  Claim C10. The promise \<open>this.loaded\<close> is never rejected: when a read fails it is
  resolved with the rejection value, and when the callback throws, with what it threw. The
  promise \<open>loadSavedState\<close> returns is never rejected either, \<open>getState\<close> returns that
  promise while \<open>this.state\<close> is undefined, and on the first call it is fulfilled as soon
  as the reads have settled, one way or the other.
\<close>

theorem loadSavedState_never_rejects:
  "(\<forall>e. loaded_outcome env reads m \<noteq> Rejected e)
   \<and> (\<forall>e. loaded_outcome env (Rejected e) m = Fulfilled (Caught e))
   \<and> (\<forall>stored e m'. loadSavedState_then env stored m = Throws e m' \<longrightarrow>
         loaded_outcome env (Fulfilled stored) m = Fulfilled (Caught e))
   \<and> (\<forall>stored st m'. loadSavedState_then env stored m = Returns st m' \<longrightarrow>
         loaded_outcome env (Fulfilled stored) m = Fulfilled (Snapshot st))
   \<and> (\<forall>e. Rejected e \<in> set gets \<longrightarrow>
         (\<exists>e'. Rejected e' \<in> set gets \<and> loaded_outcome env (reads_of gets arr) m = Fulfilled (Caught e')))
   \<and> (\<forall>e. state_promise_outcome settles state_then (fst (loadSavedState m)) \<noteq> Rejected e)
   \<and> (state m = None \<longrightarrow> getState m = loadSavedState m)
   \<and> (loadAllPromise m = None \<and> loadPromises m = [] \<longrightarrow>
        loadSavedState m =
          (LoadAll [Loaded (loads_started m)],
           m\<lparr> loaded := Some (Loaded (loads_started m)),
               loads_started := Suc (loads_started m),
               loadPromises := [Loaded (loads_started m)],
               loadAllPromise := Some (LoadAll [Loaded (loads_started m)]) \<rparr>)
        \<and> (reads \<noteq> Pending
             \<and> settles (Loaded (loads_started m)) = loaded_outcome env reads m_then \<longrightarrow>
           state_promise_outcome settles state_then (fst (loadSavedState m)) = Fulfilled state_then))"
proof (intro conjI impI allI)
  fix e
  show "loaded_outcome env reads m \<noteq> Rejected e" by (rule loaded_outcome_not_rejected)
  show "loaded_outcome env (Rejected e) m = Fulfilled (Caught e)" by (simp add: loaded_outcome_cases)
  show "state_promise_outcome settles state_then (fst (loadSavedState m)) \<noteq> Rejected e"
    by (rule state_promise_never_rejected)
next
  fix stored e m'
  assume "loadSavedState_then env stored m = Throws e m'"
  then show "loaded_outcome env (Fulfilled stored) m = Fulfilled (Caught e)"
    by (simp add: loaded_outcome_cases)
next
  fix stored st m'
  assume "loadSavedState_then env stored m = Returns st m'"
  then show "loaded_outcome env (Fulfilled stored) m = Fulfilled (Snapshot st)"
    by (simp add: loaded_outcome_cases)
next
  fix e
  assume "Rejected e \<in> set gets"
  then obtain e' where "Rejected e' \<in> set gets" "promise_all gets = Rejected e'"
    using promise_all_rejected by blast
  then show "\<exists>e'. Rejected e' \<in> set gets \<and> loaded_outcome env (reads_of gets arr) m = Fulfilled (Caught e')"
    by (auto simp: loaded_outcome_cases reads_of_def promise_then1_def promise_then_def settle_with_def)
next
  assume "state m = None"
  then show "getState m = loadSavedState m" by (simp add: getState_def)
next
  assume a: "loadAllPromise m = None \<and> loadPromises m = []"
  then show l: "loadSavedState m =
          (LoadAll [Loaded (loads_started m)],
           m\<lparr> loaded := Some (Loaded (loads_started m)),
               loads_started := Suc (loads_started m),
               loadPromises := [Loaded (loads_started m)],
               loadAllPromise := Some (LoadAll [Loaded (loads_started m)]) \<rparr>)"
    by simp
  assume b: "reads \<noteq> Pending
     \<and> settles (Loaded (loads_started m)) = loaded_outcome env reads m_then"
  have "loaded_outcome env reads m_then \<noteq> Pending"
    using b by (simp add: loaded_outcome_cases split: outcome.splits completion.splits)
  then have "Pending \<notin> set (map settles [Loaded (loads_started m)])"
    using b by simp
  then have "promise_all (map settles [Loaded (loads_started m)]) \<noteq> Pending"
    by (rule promise_all_settled)
  then show "state_promise_outcome settles state_then (fst (loadSavedState m)) = Fulfilled state_then"
    unfolding l fst_conv by (simp add: LoadAll_outcome del: state_promise_outcome.simps(1))
qed

lemma constructor_loads:
  "loadSavedState (fields_init (STATE_INIT 1000 ''0.4.0'')) = (LoadAll [Loaded 0], example_manager)"
  by (simp add: example_manager_eq fields_init_def)

text \<open>
  The load the constructor starts, with a failing read: \<open>this.loaded\<close> is resolved with
  the failure and the caller's promise is fulfilled, with the \<open>undefined\<close> snapshot.
  With a validation that refuses legacy settings, \<open>this.loaded\<close> is resolved with the
  error the callback threw.
\<close>

lemma load_refused:
  "loadSavedState_then (refusing_env 500) legacy_stored example_manager =
     Throws (Thrown ''validation'') (example_manager\<lparr> STATE_INIT_now := STATE_INIT_white \<rparr>)"
proof -
  have s: "state_of_stored (STATE_INIT 1000 ''0.4.0'') legacy_stored = legacy_state"
    by (simp add: state_of_stored_def legacy_stored_def nothing_stored_def value_or_def
        legacy_state_def STATE_INIT_def)
  have t: "\<not> stateCreatedTime legacy_state + REFRESH_EVERY < 500"
    by (simp add: legacy_state_def STATE_INIT_def REFRESH_EVERY_def)
  have r: "refusing (settings STATE_INIT_white) (settings legacy_state_night)
      = Inl (Thrown ''validation'')"
    by (simp add: refusing_def legacy_state_night_def legacy_settings_def)
  show ?thesis
    by (simp add: loadSavedState_then_def example_manager_eq refusing_env_def s t
        legacy_migrated r)
qed

theorem loadSavedState_never_rejects_witness:
  "loadSavedState (fields_init (STATE_INIT 1000 ''0.4.0'')) = (LoadAll [Loaded 0], example_manager)
   \<and> getState example_manager = (LoadAll [Loaded 0], example_manager)
   \<and> loaded_outcome (refusing_env 500) (Fulfilled legacy_stored) example_manager
       = Fulfilled (Caught (Thrown ''validation''))
   \<and> loaded_outcome (example_env 500) (Fulfilled old_session) example_manager
       = Fulfilled (Snapshot kept_session)
   \<and> loaded_outcome (example_env 500) (Rejected (Thrown ''quota'')) example_manager
       = Fulfilled (Caught (Thrown ''quota''))
   \<and> loaded_outcome (example_env 500)
        (reads_of [Fulfilled (), Rejected (Thrown ''quota''), Pending] nothing_stored) example_manager
       = Fulfilled (Caught (Thrown ''quota''))
   \<and> state_promise_outcome others_fail None (LoadAll [Loaded 0]) = Fulfilled None"
proof -
  let ?m = "fields_init (STATE_INIT 1000 ''0.4.0'')"
  let ?gets = "[Fulfilled (), Rejected (Thrown ''quota''), Pending]"
  have h: "loadAllPromise ?m = None \<and> loadPromises ?m = []" "loads_started ?m = 0"
    by (simp_all add: fields_init_def)
  have s: "Rejected (Thrown ''quota'') \<noteq> (Pending :: Stored outcome)
     \<and> others_fail (Loaded (loads_started ?m)) =
         loaded_outcome (example_env 500) (Rejected (Thrown ''quota'')) example_manager"
    by (simp add: loaded_outcome_cases h)
  have n: "state example_manager = None" by (simp add: example_manager_eq)
  have g: "Rejected (Thrown ''quota'') \<in> set ?gets" by simp
  note t = loadSavedState_never_rejects [of "example_env 500" "Rejected (Thrown ''quota'')"
      ?m ?gets nothing_stored others_fail None example_manager]
  from t h s have a: "state_promise_outcome others_fail None (fst (loadSavedState ?m)) = Fulfilled None"
    by blast
  note u = loadSavedState_never_rejects [of "example_env 500" "Rejected (Thrown ''quota'')"
      example_manager ?gets nothing_stored others_fail None example_manager]
  from u n
  have b: "getState example_manager = loadSavedState example_manager"
    and c: "loaded_outcome (example_env 500) (Rejected (Thrown ''quota'')) example_manager
       = Fulfilled (Caught (Thrown ''quota''))"
    by blast+
  from u g obtain e' where "Rejected e' \<in> set ?gets"
    and "loaded_outcome (example_env 500) (reads_of ?gets nothing_stored) example_manager
       = Fulfilled (Caught e')"
    by blast
  then have c': "loaded_outcome (example_env 500) (reads_of ?gets nothing_stored) example_manager
       = Fulfilled (Caught (Thrown ''quota''))"
    by auto
  have d: "loadSavedState example_manager = (LoadAll [Loaded 0], example_manager)"
    by (simp add: example_manager_eq)
  from loadSavedState_never_rejects [of "refusing_env 500" "Rejected (Thrown ''quota'')"
      example_manager ?gets nothing_stored others_fail None example_manager] load_refused
  have f: "loaded_outcome (refusing_env 500) (Fulfilled legacy_stored) example_manager
       = Fulfilled (Caught (Thrown ''validation''))"
    by blast
  from u load_fresh_session
  have g': "loaded_outcome (example_env 500) (Fulfilled old_session) example_manager
       = Fulfilled (Snapshot kept_session)"
    by blast
  note a' = a [unfolded constructor_loads fst_conv]
  show ?thesis
    using a' b c c' d f g' constructor_loads
    by (simp del: state_promise_outcome.simps loadSavedState.simps)
qed

end
